theory Spec2Isabelle
  imports Complex_Main
begin

section \<open>Shake detection service (src/services/shakeDetectionService.ts)\<close>

text \<open>
  The service is a process-wide singleton with four mutable fields and one constant.
  JavaScript numbers are idealised: accelerations and thresholds are real numbers, the
  millisecond clock \<open>Date.now()\<close> is an integer. The callback field holds either a
  function or \<open>null\<close>; the model keeps whether one is installed, and the listener
  returns whether it invoked it.
\<close>

datatype sensitivity = Low | Medium | High

record shake_service =
  subscription :: bool
  lastShakeTime :: int
  shakeThreshold :: real
  onShakeCallback :: bool

definition shakeTimeout :: int where
  "shakeTimeout = 1000"

definition new_shake_service :: shake_service where
  "new_shake_service =
     \<lparr>subscription = False, lastShakeTime = 0, shakeThreshold = 2.5, onShakeCallback = False\<rparr>"

text \<open>The \<open>switch (sensitivity)\<close> that both \<open>start\<close> and \<open>setSensitivity\<close> contain.\<close>

fun threshold_case :: "sensitivity \<Rightarrow> real" where
  "threshold_case Low = 3.5"
| "threshold_case Medium = 2.5"
| "threshold_case High = 1.8"

definition start :: "sensitivity \<Rightarrow> shake_service \<Rightarrow> shake_service" where
  "start sens s =
     s\<lparr>shakeThreshold := threshold_case sens, onShakeCallback := True, subscription := True\<rparr>"

definition stop :: "shake_service \<Rightarrow> shake_service" where
  "stop s = (if subscription s then s\<lparr>subscription := False, onShakeCallback := False\<rparr> else s)"

definition isActive :: "shake_service \<Rightarrow> bool" where
  "isActive s = subscription s"

definition setSensitivity :: "sensitivity \<Rightarrow> shake_service \<Rightarrow> shake_service" where
  "setSensitivity sens s = s\<lparr>shakeThreshold := threshold_case sens\<rparr>"

type_synonym accel = "real \<times> real \<times> real"

fun acceleration :: "accel \<Rightarrow> real" where
  "acceleration (x, y, z) = sqrt (x * x + y * y + z * z)"

text \<open>
  The accelerometer listener installed by \<open>start\<close>, run on one sample at clock reading
  \<open>now\<close>. The second component says whether \<open>onShakeCallback\<close> was called.
\<close>

definition listener :: "accel \<Rightarrow> int \<Rightarrow> shake_service \<Rightarrow> shake_service \<times> bool" where
  "listener v now s =
     (if acceleration v > shakeThreshold s then
        (if now - lastShakeTime s > shakeTimeout
         then (s\<lparr>lastShakeTime := now\<rparr>, onShakeCallback s)
         else (s, False))
      else (s, False))"

text \<open>A stream of timestamped samples delivered to the listener, one after the other.\<close>

fun feed :: "(int \<times> accel) list \<Rightarrow> shake_service \<Rightarrow> bool list" where
  "feed [] s = []"
| "feed ((t, v) # ss) s = snd (listener v t s) # feed ss (fst (listener v t s))"

fun after_feed :: "(int \<times> accel) list \<Rightarrow> shake_service \<Rightarrow> shake_service" where
  "after_feed [] s = s"
| "after_feed ((t, v) # ss) s = after_feed ss (fst (listener v t s))"

definition shake_times :: "(int \<times> accel) list \<Rightarrow> shake_service \<Rightarrow> int list" where
  "shake_times ss s = map (fst \<circ> fst) (filter snd (zip ss (feed ss s)))"

section \<open>Transcription request (src/services/voiceRecognitionService.ts, transcribeAudio)\<close>

text \<open>
  What the function returns depends on two answers of the environment: the stored auth
  token (\<open>AsyncStorage.getItem\<close> may reject, give \<open>null\<close>, or give a string) and
  the outcome of the HTTP POST (axios rejects on timeout with code \<open>ECONNABORTED\<close>, on
  a network error, and on every non-2xx status). An exception is a value \<open>Inl e\<close>.
\<close>

datatype js_error = NoAuthToken | ECONNABORTED | NetworkError | HttpStatus nat | OtherError

record transcription =
  success :: bool
  transcript :: string
  containsKeyword :: bool
  hasVoice :: bool

record response_data =
  data_success :: "bool option"
  data_transcript :: "string option"
  data_containsKeyword :: "bool option"
  data_hasVoice :: "bool option"

record backend =
  token :: "js_error + string option"
  post :: "js_error + response_data"

text \<open>The body of the \<open>try\<close> block. An empty token string is falsy, like \<open>null\<close>.\<close>

definition transcribeAudio_try :: "backend \<Rightarrow> js_error + transcription" where
  "transcribeAudio_try env =
     (case token env of
        Inl e \<Rightarrow> Inl e
      | Inr None \<Rightarrow> Inl NoAuthToken
      | Inr (Some tk) \<Rightarrow>
          if tk = [] then Inl NoAuthToken
          else (case post env of
                  Inl e \<Rightarrow> Inl e
                | Inr d \<Rightarrow>
                    Inr \<lparr>success = (data_success d = Some True),
                         transcript = (case data_transcript d of None \<Rightarrow> [] | Some t \<Rightarrow> t),
                         containsKeyword = (data_containsKeyword d = Some True),
                         hasVoice = (data_hasVoice d \<noteq> Some False)\<rparr>))"

text \<open>
  The \<open>catch\<close> block: every branch only writes to the console, then the same record is
  returned.
\<close>

fun transcribeAudio_catch :: "js_error \<Rightarrow> js_error + transcription" where
  "transcribeAudio_catch ECONNABORTED =
     Inr \<lparr>success = False, transcript = [], containsKeyword = False, hasVoice = False\<rparr>"
| "transcribeAudio_catch NetworkError =
     Inr \<lparr>success = False, transcript = [], containsKeyword = False, hasVoice = False\<rparr>"
| "transcribeAudio_catch (HttpStatus n) =
     Inr \<lparr>success = False, transcript = [], containsKeyword = False, hasVoice = False\<rparr>"
| "transcribeAudio_catch e =
     Inr \<lparr>success = False, transcript = [], containsKeyword = False, hasVoice = False\<rparr>"

definition transcribeAudio :: "backend \<Rightarrow> js_error + transcription" where
  "transcribeAudio env =
     (case transcribeAudio_try env of Inl e \<Rightarrow> transcribeAudio_catch e | Inr r \<Rightarrow> Inr r)"

section \<open>The application state and its asynchronous tasks\<close>

text \<open>
  JavaScript runs one callback at a time; an \<open>async\<close> function runs until its next
  \<open>await\<close> and is resumed later. Each call of an async function is a task with a
  program point (the \<open>await\<close> it is suspended at) and, for a timer, the clock reading
  at which it resumes. The code between two suspension points is one state transformer.
  Awaits on platform calls (expo-av, AsyncStorage, permission requests) are taken to
  complete within the segment that issues them; the suspension points are the
  \<open>setTimeout\<close> delays and the transcription request.
\<close>

text \<open>
  A key of AsyncStorage read with \<open>getItem\<close> and parsed with \<open>JSON.parse\<close>:
  \<open>null\<close>; a string the parser rejects; a value that parses and is not a list (so
  that \<open>unshift\<close> and \<open>map\<close> are no functions of it and its \<open>length\<close> is not 0);
  or a list.
\<close>

datatype 'a item = Absent | Corrupt | NotList | Stored 'a

record location =
  loc_latitude :: real
  loc_longitude :: real
  loc_address :: "string option"

record alert =
  alert_id :: int
  triggerType :: string
  status :: string
  latitude :: real
  longitude :: real
  address :: "string option"
  message :: string
  createdAt :: int

text \<open>What the user is shown and what the recorder and the backend are asked to do.\<close>

datatype notice =
    ShakeDetectedToast | LocationNotAvailable | FailedToSendAlert | NoGuardians
  | AlertSentToast nat | KeywordAlertToast | VoiceActiveToast | MicrophoneRequired
  | AlreadyListening | RecordingLocked | TranscriptionFailed | ListeningLoopError
  | VoiceDisabledToast | CaptureStarted nat | CaptureStopped nat | TranscribeRequested nat

datatype cont = AfterKeyword | AfterToggle | Standalone

text \<open>
  The suspension points. In \<open>recordChunk\<close>: the 50 ms of \<open>forceCleanup\<close>, the
  recording time, the 100 ms before the URI is returned. In the loop of
  \<open>startListening\<close>: the 1000 ms after a capture without a chunk, the transcription
  request for a chunk, the 300 ms between chunks, the 1000 ms "sending" delay of
  \<open>triggerEmergencyAlert\<close> (with the number of guardians, or with guardians that are
  no list), the 2000 ms of the loop's \<open>catch\<close>. In \<open>stopListening\<close>: its 500 ms, and the 50 ms of \<open>forceCleanup\<close>
  inside \<open>cleanup\<close>. In \<open>toggleVoiceDetection\<close>: the 500 ms before
  \<open>startListening\<close>. In \<open>handleShakeDetected\<close>: its 1000 ms "sending" delay, in
  the same two forms.
\<close>

datatype pc =
    RC_cleanup | RC_record | RC_release nat
  | Loop_retry | Loop_transcribe nat | Loop_delay | Loop_alert nat | Loop_alert_no_list
  | Loop_error
  | Stop_wait cont | Stop_cleanup cont
  | Toggle_wait
  | Shake_alert nat | Shake_alert_no_list

text \<open>
  The state: the clock \<open>Date.now()\<close>; the shake service; the four fields of the voice
  recognition service (a recording is identified by a number, which is also its URI);
  the ref and the two state variables of the voice provider; the two state variables of
  the shake provider; the location provider's \<open>currentLocation\<close>; the
  \<open>currentLocation\<close> held by the closure of the installed shake callback and the one
  held by the closure of the listening loop (each is the provider's value of the render
  that created the closure); the microphone permission and the two storage keys; what
  has been shown so far; the suspended tasks, each with its
  identifier, the clock reading of its timer (none for a request) and its program point.
\<close>

record world =
  clock :: int
  shake :: shake_service
  recording :: "nat option"
  isRecording :: bool
  isInitialized :: bool
  recordingLock :: bool
  listeningLoopRef :: bool
  isListening :: bool
  voice_isEnabled :: bool
  shake_isEnabled :: bool
  shake_sensitivity :: sensitivity
  currentLocation :: "location option"
  shake_currentLocation :: "location option"
  voice_currentLocation :: "location option"
  micPermission :: bool
  demo_guardians :: "(string \<times> string) list item"
  demo_alerts :: "alert list item"
  journal :: "notice list"
  tasks :: "(nat \<times> int option \<times> pc) list"
  next_id :: nat
  next_recording :: nat

definition say :: "notice \<Rightarrow> world \<Rightarrow> world" where
  "say n w = w\<lparr>journal := journal w @ [n]\<rparr>"

definition drop_task :: "nat \<Rightarrow> world \<Rightarrow> world" where
  "drop_task tid w = w\<lparr>tasks := filter (\<lambda>e. fst e \<noteq> tid) (tasks w)\<rparr>"

text \<open>\<open>await new Promise(resolve => setTimeout(resolve, d))\<close> at program point \<open>p\<close>.\<close>

definition sleep :: "int \<Rightarrow> pc \<Rightarrow> nat \<Rightarrow> world \<Rightarrow> world" where
  "sleep d p tid w =
     w\<lparr>tasks := filter (\<lambda>e. fst e \<noteq> tid) (tasks w) @ [(tid, Some (clock w + d), p)]\<rparr>"

text \<open>Suspension on the transcription request: resumed by the reply, not by a timer.\<close>

definition await_reply :: "pc \<Rightarrow> nat \<Rightarrow> world \<Rightarrow> world" where
  "await_reply p tid w =
     w\<lparr>tasks := filter (\<lambda>e. fst e \<noteq> tid) (tasks w) @ [(tid, None, p)]\<rparr>"

definition task_at :: "world \<Rightarrow> nat \<Rightarrow> (int option \<times> pc) option" where
  "task_at w tid = map_of (tasks w) tid"

section \<open>Voice recognition service and voice context\<close>

text \<open>\<open>voiceRecognitionService.initialize\<close>: permission is requested once.\<close>

definition initialize :: "world \<Rightarrow> bool \<times> world" where
  "initialize w =
     (if isInitialized w then (True, w)
      else if \<not> micPermission w then (False, w)
      else (True, w\<lparr>isInitialized := True\<rparr>))"

text \<open>The end of \<open>startListening\<close> after its \<open>while\<close> loop.\<close>

definition loop_exit :: "nat \<Rightarrow> world \<Rightarrow> world" where
  "loop_exit tid w = drop_task tid (w\<lparr>isListening := False\<rparr>)"

text \<open>
  \<open>stopListening\<close> in three segments: clear the loop flag and wait 500 ms; then
  \<open>cleanup\<close> (release the lock, \<open>stopRecording\<close>, \<open>forceCleanup\<close> with its 50 ms
  wait); then the rest of \<open>cleanup\<close> and of the caller. The \<open>cont\<close> says who awaits
  it: the listening loop after a keyword, \<open>toggleVoiceDetection\<close>, or nobody.
\<close>

definition stopListening_0 :: "cont \<Rightarrow> nat \<Rightarrow> world \<Rightarrow> world" where
  "stopListening_0 k tid w = sleep 500 (Stop_wait k) tid (w\<lparr>listeningLoopRef := False\<rparr>)"

definition stopListening_1 :: "cont \<Rightarrow> nat \<Rightarrow> world \<Rightarrow> world" where
  "stopListening_1 k tid w =
     (let w1 = w\<lparr>recordingLock := False\<rparr>;
          w2 = (case recording w1 of
                  None \<Rightarrow> w1
                | Some r \<Rightarrow> say (CaptureStopped r) (w1\<lparr>recording := None\<rparr>));
          w3 = w2\<lparr>isRecording := False\<rparr>
      in sleep 50 (Stop_cleanup k) tid w3)"

definition stopListening_2 :: "cont \<Rightarrow> nat \<Rightarrow> world \<Rightarrow> world" where
  "stopListening_2 k tid w =
     (let w1 = w\<lparr>isInitialized := False, isListening := False\<rparr>
      in case k of
           AfterKeyword \<Rightarrow> loop_exit tid w1
         | AfterToggle \<Rightarrow> drop_task tid (say VoiceDisabledToast (w1\<lparr>voice_isEnabled := False\<rparr>))
         | Standalone \<Rightarrow> drop_task tid w1)"

text \<open>
  The list a stored key stands for: \<open>stored ? JSON.parse(stored) : []\<close>, when that is
  a list.
\<close>

definition parsed :: "'a list item \<Rightarrow> 'a list option" where
  "parsed i =
     (case i of Absent \<Rightarrow> Some [] | Corrupt \<Rightarrow> None | NotList \<Rightarrow> None | Stored xs \<Rightarrow> Some xs)"

text \<open>
  The part shared by \<open>handleShakeDetected\<close> and \<open>triggerEmergencyAlert\<close>: read and
  parse the guardians, build the alert, read and parse the alerts, put the new alert in
  front and write the list back. \<open>None\<close> is an exception before anything is written:
  \<open>JSON.parse\<close> of a malformed string, or \<open>alerts.unshift\<close> on what is no list.
  Guardians that parse and are no list raise nothing here; the result carries the number
  of guardians when they are a list.
\<close>

definition save_alert ::
  "string \<Rightarrow> string \<Rightarrow> location \<Rightarrow> world \<Rightarrow> (nat option \<times> world) option" where
  "save_alert ttype msg l w =
     (case demo_guardians w of
        Corrupt \<Rightarrow> None
      | guardians \<Rightarrow>
          let newAlert = \<lparr>alert_id = clock w, triggerType = ttype, status = ''ACTIVE'',
                           latitude = loc_latitude l, longitude = loc_longitude l,
                           address = loc_address l, message = msg, createdAt = clock w\<rparr>
          in (case parsed (demo_alerts w) of
                None \<Rightarrow> None
              | Some alerts \<Rightarrow>
                  Some (map_option length (parsed guardians),
                        w\<lparr>demo_alerts := Stored (newAlert # alerts)\<rparr>)))"

text \<open>The two alert messages; the voice one quotes the keyword in double quotes.\<close>

definition shake_message :: string where
  "shake_message = ''Emergency alert triggered by shake detection''"

definition voice_message :: string where
  "voice_message =
     ''Emergency alert triggered by voice command '' @ [CHR 0x22] @ ''Astra'' @ [CHR 0x22]"

text \<open>
  \<open>triggerEmergencyAlert\<close>, called and awaited by the listening loop, which then awaits
  \<open>stopListening\<close>. The location it reads is the one the loop's closure holds.
  Segment 0 runs to the 1000 ms "sending" delay, or returns at once without a location
  or on an exception; segment 1 shows the result, or fails on guardians that are no list
  (\<open>guardians.map\<close>), which the \<open>catch\<close> block reports.
\<close>

definition triggerEmergencyAlert_0 :: "nat \<Rightarrow> world \<Rightarrow> world" where
  "triggerEmergencyAlert_0 tid w =
     (case voice_currentLocation w of
        None \<Rightarrow> stopListening_0 AfterKeyword tid (say LocationNotAvailable w)
      | Some l \<Rightarrow>
          (case save_alert ''voice'' voice_message l w of
             None \<Rightarrow> stopListening_0 AfterKeyword tid (say FailedToSendAlert w)
           | Some (None, w1) \<Rightarrow> sleep 1000 Loop_alert_no_list tid w1
           | Some (Some n, w1) \<Rightarrow> sleep 1000 (Loop_alert n) tid w1))"

definition triggerEmergencyAlert_1 :: "nat \<Rightarrow> nat \<Rightarrow> world \<Rightarrow> world" where
  "triggerEmergencyAlert_1 n tid w =
     stopListening_0 AfterKeyword tid (say (if n = 0 then NoGuardians else AlertSentToast n) w)"

definition triggerEmergencyAlert_1_no_list :: "nat \<Rightarrow> world \<Rightarrow> world" where
  "triggerEmergencyAlert_1_no_list tid w =
     stopListening_0 AfterKeyword tid (say FailedToSendAlert w)"

text \<open>
  The listening loop after \<open>recordChunk\<close> has returned \<open>audioUri\<close>: no chunk means a
  1000 ms wait before the next iteration; a cleared flag means \<open>break\<close>; otherwise the
  chunk is sent for transcription.
\<close>

definition loop_after_record :: "nat option \<Rightarrow> nat \<Rightarrow> world \<Rightarrow> world" where
  "loop_after_record audioUri tid w =
     (case audioUri of
        None \<Rightarrow> sleep 1000 Loop_retry tid w
      | Some uri \<Rightarrow>
          if \<not> listeningLoopRef w then loop_exit tid w
          else await_reply (Loop_transcribe uri) tid (say (TranscribeRequested uri) w))"

text \<open>
  \<open>recordChunk(3000)\<close> in four segments. The flag \<open>ok\<close> of a segment says whether
  the expo-av calls of that segment succeed; when one throws, the \<open>catch\<close> block runs.
  The \<open>finally\<close> block releases the lock on every return after the lock was taken.
\<close>

definition recordChunk_0 :: "nat \<Rightarrow> world \<Rightarrow> world" where
  "recordChunk_0 tid w =
     (if recordingLock w then loop_after_record None tid (say RecordingLocked w)
      else
        let w1 = w\<lparr>recordingLock := True\<rparr>;
            w2 = (case recording w1 of
                    None \<Rightarrow> w1
                  | Some r \<Rightarrow> say (CaptureStopped r) (w1\<lparr>recording := None\<rparr>));
            w3 = w2\<lparr>isRecording := False\<rparr>
        in sleep 50 RC_cleanup tid w3)"

definition recordChunk_catch :: "nat \<Rightarrow> world \<Rightarrow> world" where
  "recordChunk_catch tid w =
     loop_after_record None tid (w\<lparr>recording := None, isRecording := False, recordingLock := False\<rparr>)"

definition recordChunk_1 :: "bool \<Rightarrow> nat \<Rightarrow> world \<Rightarrow> world" where
  "recordChunk_1 ok tid w =
     (let r = next_recording w;
          w1 = w\<lparr>recording := Some r, next_recording := Suc r\<rparr>
      in if ok then sleep 3000 RC_record tid (say (CaptureStarted r) (w1\<lparr>isRecording := True\<rparr>))
         else recordChunk_catch tid w1)"

definition recordChunk_2 :: "bool \<Rightarrow> nat \<Rightarrow> world \<Rightarrow> world" where
  "recordChunk_2 ok tid w =
     (case recording w of
        Some r \<Rightarrow>
          if ok then sleep 100 (RC_release r) tid
                       (say (CaptureStopped r) (w\<lparr>recording := None, isRecording := False\<rparr>))
          else recordChunk_catch tid w
      | None \<Rightarrow> loop_after_record None tid (w\<lparr>isRecording := False, recordingLock := False\<rparr>))"

definition recordChunk_3 :: "nat \<Rightarrow> nat \<Rightarrow> world \<Rightarrow> world" where
  "recordChunk_3 uri tid w = loop_after_record (Some uri) tid (w\<lparr>recordingLock := False\<rparr>)"

text \<open>The head of the \<open>while (listeningLoopRef.current)\<close> loop.\<close>

definition loop_top :: "nat \<Rightarrow> world \<Rightarrow> world" where
  "loop_top tid w = (if listeningLoopRef w then recordChunk_0 tid w else loop_exit tid w)"

text \<open>The loop body after \<open>transcribeAudio\<close> has returned \<open>result\<close>.\<close>

definition loop_on_result :: "transcription \<Rightarrow> nat \<Rightarrow> world \<Rightarrow> world" where
  "loop_on_result result tid w =
     (if success result then
        (if hasVoice result \<and> transcript result \<noteq> [] then
           (if containsKeyword result then triggerEmergencyAlert_0 tid (say KeywordAlertToast w)
            else sleep 300 Loop_delay tid w)
         else sleep 300 Loop_delay tid w)
      else sleep 300 Loop_delay tid (say TranscriptionFailed w))"

text \<open>
  The loop resumed by the backend's answer. An exception out of \<open>transcribeAudio\<close>
  would reach the loop's own \<open>catch\<close> and its 2000 ms wait.
\<close>

definition loop_on_reply :: "backend \<Rightarrow> nat \<Rightarrow> world \<Rightarrow> world" where
  "loop_on_reply env tid w =
     (case transcribeAudio env of
        Inr result \<Rightarrow> loop_on_result result tid w
      | Inl e \<Rightarrow> sleep 2000 Loop_error tid (say ListeningLoopError w))"

definition startListening :: "nat \<Rightarrow> world \<Rightarrow> world" where
  "startListening tid w =
     (if listeningLoopRef w then drop_task tid (say AlreadyListening w)
      else
        let (initialized, w1) = initialize w
        in if \<not> initialized then drop_task tid (say MicrophoneRequired w1)
           else loop_top tid (say VoiceActiveToast (w1\<lparr>listeningLoopRef := True, isListening := True\<rparr>)))"

text \<open>
  \<open>toggleVoiceDetection\<close>. The screen calls the function of the latest render, and the
  \<open>startListening\<close> it calls is of the same render: the loop that starts keeps the
  location the provider has at the tap.
\<close>

definition toggleVoiceDetection :: "nat \<Rightarrow> world \<Rightarrow> world" where
  "toggleVoiceDetection tid w =
     (let newState = \<not> voice_isEnabled w
      in if \<not> newState then stopListening_0 AfterToggle tid w
         else sleep 500 Toggle_wait tid
                (w\<lparr>voice_isEnabled := True, voice_currentLocation := currentLocation w\<rparr>))"

section \<open>Shake context and application lifecycle\<close>

text \<open>
  \<open>handleShakeDetected\<close>, the callback the shake service invokes. The location it
  reads is the one its closure holds: the callback is installed by the provider's effect,
  which runs again only when \<open>isEnabled\<close> or \<open>sensitivity\<close> changes. Segment 0 runs
  to the 1000 ms "sending" delay; segment 1 shows the result, or fails on guardians that
  are no list, which the \<open>catch\<close> block reports.
\<close>

definition handleShakeDetected_0 :: "nat \<Rightarrow> world \<Rightarrow> world" where
  "handleShakeDetected_0 tid w =
     (let w0 = say ShakeDetectedToast w
      in case shake_currentLocation w0 of
           None \<Rightarrow> drop_task tid (say LocationNotAvailable w0)
         | Some l \<Rightarrow>
             (case save_alert ''manual'' shake_message l w0 of
                None \<Rightarrow> drop_task tid (say FailedToSendAlert w0)
              | Some (None, w1) \<Rightarrow> sleep 1000 Shake_alert_no_list tid w1
              | Some (Some n, w1) \<Rightarrow> sleep 1000 (Shake_alert n) tid w1))"

definition handleShakeDetected_1 :: "nat \<Rightarrow> nat \<Rightarrow> world \<Rightarrow> world" where
  "handleShakeDetected_1 n tid w =
     drop_task tid (say (if n = 0 then NoGuardians else AlertSentToast n) w)"

definition handleShakeDetected_1_no_list :: "nat \<Rightarrow> world \<Rightarrow> world" where
  "handleShakeDetected_1_no_list tid w = drop_task tid (say FailedToSendAlert w)"

text \<open>A call of an async function from an event handler starts a new task.\<close>

definition spawn :: "(nat \<Rightarrow> world \<Rightarrow> world) \<Rightarrow> world \<Rightarrow> world" where
  "spawn f w = f (next_id w) (w\<lparr>next_id := Suc (next_id w)\<rparr>)"

text \<open>The accelerometer delivers a sample to the listener while the subscription lives.\<close>

definition on_sample :: "accel \<Rightarrow> world \<Rightarrow> world" where
  "on_sample v w =
     (if subscription (shake w) then
        (let w1 = w\<lparr>shake := fst (listener v (clock w) (shake w))\<rparr>
         in if snd (listener v (clock w) (shake w)) then spawn handleShakeDetected_0 w1 else w1)
      else w)"

datatype app_state = Active | Background | Inactive

definition startShakeDetection :: "world \<Rightarrow> world" where
  "startShakeDetection w =
     (if isActive (shake w) then w else w\<lparr>shake := start (shake_sensitivity w) (shake w)\<rparr>)"

definition stopShakeDetection :: "world \<Rightarrow> world" where
  "stopShakeDetection w = w\<lparr>shake := stop (shake w)\<rparr>"

definition shake_handleAppStateChange :: "app_state \<Rightarrow> world \<Rightarrow> world" where
  "shake_handleAppStateChange nextAppState w =
     (if nextAppState = Active \<and> shake_isEnabled w then startShakeDetection w
      else if nextAppState = Background \<or> nextAppState = Inactive then stopShakeDetection w
      else w)"

text \<open>
  The shake context's \<open>setSensitivity\<close>: the state and the service's threshold are
  set; when the state has changed, the provider's effect runs again: its cleanup stops
  the detection, and with \<open>isEnabled\<close> the detection is started with a callback of the
  new render, whose closure holds the provider's location of that moment.
\<close>

definition shake_setSensitivity :: "sensitivity \<Rightarrow> world \<Rightarrow> world" where
  "shake_setSensitivity newSensitivity w =
     (let w1 = w\<lparr>shake_sensitivity := newSensitivity,
                  shake := setSensitivity newSensitivity (shake w)\<rparr>
      in if newSensitivity = shake_sensitivity w then w1
         else
           let w2 = stopShakeDetection w1
           in if shake_isEnabled w2
              then (startShakeDetection w2)\<lparr>shake_currentLocation := currentLocation w2\<rparr>
              else w2)"

text \<open>
  The location provider's \<open>setCurrentLocation\<close>. The providers render again; the
  callback already installed and the loop already running keep their closures.
\<close>

definition setCurrentLocation :: "location \<Rightarrow> world \<Rightarrow> world" where
  "setCurrentLocation l w = w\<lparr>currentLocation := Some l\<rparr>"

text \<open>
  The voice context's handler is created once, by an effect without dependencies, so the
  \<open>isEnabled\<close> it reads is the one of the first render; it is a parameter here.
\<close>

definition voice_handleAppStateChange :: "bool \<Rightarrow> app_state \<Rightarrow> world \<Rightarrow> world" where
  "voice_handleAppStateChange isEnabled nextAppState w =
     (if nextAppState = Active \<and> isEnabled \<and> listeningLoopRef w then spawn startListening w
      else if nextAppState = Background \<or> nextAppState = Inactive
           then spawn (stopListening_0 Standalone) w
      else w)"

definition isEnabled_at_mount :: bool where
  "isEnabled_at_mount = False"

section \<open>Events and schedules\<close>

text \<open>A timer that expires resumes its task at the program point where it waits.\<close>

definition resume :: "bool \<Rightarrow> nat \<Rightarrow> world \<Rightarrow> world" where
  "resume ok tid w =
     (case task_at w tid of
        None \<Rightarrow> w
      | Some (wake, p) \<Rightarrow>
          (case p of
             RC_cleanup \<Rightarrow> recordChunk_1 ok tid w
           | RC_record \<Rightarrow> recordChunk_2 ok tid w
           | RC_release uri \<Rightarrow> recordChunk_3 uri tid w
           | Loop_retry \<Rightarrow> loop_top tid w
           | Loop_transcribe uri \<Rightarrow> w
           | Loop_delay \<Rightarrow> loop_top tid w
           | Loop_alert n \<Rightarrow> triggerEmergencyAlert_1 n tid w
           | Loop_alert_no_list \<Rightarrow> triggerEmergencyAlert_1_no_list tid w
           | Loop_error \<Rightarrow> loop_top tid w
           | Stop_wait k \<Rightarrow> stopListening_1 k tid w
           | Stop_cleanup k \<Rightarrow> stopListening_2 k tid w
           | Toggle_wait \<Rightarrow> startListening tid w
           | Shake_alert n \<Rightarrow> handleShakeDetected_1 n tid w
           | Shake_alert_no_list \<Rightarrow> handleShakeDetected_1_no_list tid w))"

definition reply :: "backend \<Rightarrow> nat \<Rightarrow> world \<Rightarrow> world" where
  "reply env tid w =
     (case task_at w tid of
        Some (None, Loop_transcribe uri) \<Rightarrow> loop_on_reply env tid w
      | _ \<Rightarrow> w)"

datatype event =
    Timer nat bool
  | Reply nat backend
  | Sample accel
  | TapVoiceToggle
  | AppStateChange app_state
  | LocationFix location
  | PickSensitivity sensitivity

definition timers :: "world \<Rightarrow> int list" where
  "timers w = concat (map (\<lambda>e. case fst (snd e) of None \<Rightarrow> [] | Some d \<Rightarrow> [d]) (tasks w))"

text \<open>
  An event at clock reading \<open>t\<close> is possible when the clock has not passed \<open>t\<close> and no
  pending timer is due before \<open>t\<close>; a timer fires at the reading it was set for. A
  change of the application state reaches the handlers of both providers, which work on
  separate parts of the state.
\<close>

definition fire :: "int \<times> event \<Rightarrow> world \<Rightarrow> world option" where
  "fire te w =
     (let t = fst te; w1 = w\<lparr>clock := t\<rparr>
      in if t < clock w \<or> list_ex (\<lambda>d. d < t) (timers w) then None
         else (case snd te of
                 Timer tid ok \<Rightarrow>
                   (case task_at w tid of
                      Some (Some d, p) \<Rightarrow> if d = t then Some (resume ok tid w1) else None
                    | _ \<Rightarrow> None)
               | Reply tid env \<Rightarrow>
                   (case task_at w tid of
                      Some (None, p) \<Rightarrow> Some (reply env tid w1)
                    | _ \<Rightarrow> None)
               | Sample v \<Rightarrow> Some (on_sample v w1)
               | TapVoiceToggle \<Rightarrow> Some (spawn toggleVoiceDetection w1)
               | AppStateChange st \<Rightarrow>
                   Some (voice_handleAppStateChange isEnabled_at_mount st
                           (shake_handleAppStateChange st w1))
               | LocationFix l \<Rightarrow> Some (setCurrentLocation l w1)
               | PickSensitivity sens \<Rightarrow> Some (shake_setSensitivity sens w1)))"

fun exec :: "(int \<times> event) list \<Rightarrow> world \<Rightarrow> world option" where
  "exec [] w = Some w"
| "exec (te # tes) w = (case fire te w of None \<Rightarrow> None | Some w1 \<Rightarrow> exec tes w1)"

text \<open>
  The application at clock reading \<open>t0\<close> with both providers mounted: shake detection
  enabled and started with Medium sensitivity, voice detection disabled, the audio
  service initialised. \<open>loc\<close> is the location the provider has and the closures hold:
  \<open>None\<close> right after the mount, a location once the effect of the shake provider has
  run again after a fix.
\<close>

definition mounted ::
  "int \<Rightarrow> location option \<Rightarrow> (string \<times> string) list item \<Rightarrow> world" where
  "mounted t0 loc guardians =
     \<lparr>clock = t0, shake = start Medium new_shake_service,
      recording = None, isRecording = False, isInitialized = True, recordingLock = False,
      listeningLoopRef = False, isListening = False, voice_isEnabled = False,
      shake_isEnabled = True, shake_sensitivity = Medium,
      currentLocation = loc, shake_currentLocation = loc, voice_currentLocation = loc,
      micPermission = True,
      demo_guardians = guardians, demo_alerts = Absent,
      journal = [], tasks = [], next_id = 0, next_recording = 0\<rparr>"

text \<open>Tasks inside an alert dispatch, inside \<open>recordChunk\<close>, and awaiting a transcription.\<close>

fun dispatching :: "pc \<Rightarrow> bool" where
  "dispatching (Loop_alert n) = True"
| "dispatching Loop_alert_no_list = True"
| "dispatching (Shake_alert n) = True"
| "dispatching Shake_alert_no_list = True"
| "dispatching p = False"

fun capturing :: "pc \<Rightarrow> bool" where
  "capturing RC_cleanup = True"
| "capturing RC_record = True"
| "capturing (RC_release uri) = True"
| "capturing p = False"

fun transcribing :: "pc \<Rightarrow> bool" where
  "transcribing (Loop_transcribe uri) = True"
| "transcribing p = False"

definition count_tasks :: "(pc \<Rightarrow> bool) \<Rightarrow> world \<Rightarrow> nat" where
  "count_tasks P w = length (filter (\<lambda>e. P (snd (snd e))) (tasks w))"

definition persisted :: "world \<Rightarrow> alert list" where
  "persisted w = (case demo_alerts w of Stored xs \<Rightarrow> xs | _ \<Rightarrow> [])"

section \<open>Example data\<close>

definition home :: location where
  "home = \<lparr>loc_latitude = 1, loc_longitude = 2, loc_address = None\<rparr>"

text \<open>Backend answers: the keyword heard, the keyword flagged without a transcript, a timeout.\<close>

definition astra_heard :: backend where
  "astra_heard =
     \<lparr>token = Inr (Some ''jwt''),
      post = Inr \<lparr>data_success = Some True, data_transcript = Some ''Astra'',
                  data_containsKeyword = Some True, data_hasVoice = Some True\<rparr>\<rparr>"

definition keyword_without_transcript :: backend where
  "keyword_without_transcript =
     \<lparr>token = Inr (Some ''jwt''),
      post = Inr \<lparr>data_success = Some True, data_transcript = None,
                  data_containsKeyword = Some True, data_hasVoice = Some True\<rparr>\<rparr>"

definition timed_out :: backend where
  "timed_out = \<lparr>token = Inr (Some ''jwt''), post = Inl ECONNABORTED\<rparr>"

text \<open>
  The user switches voice detection on at 5000; the loop starts at 5500, records from
  5550 to 8550 and sends the chunk for transcription at 8650.
\<close>

definition first_capture :: "(int \<times> event) list" where
  "first_capture =
     [(5000, TapVoiceToggle), (5500, Timer 0 True), (5550, Timer 0 True),
      (8550, Timer 0 True), (8650, Timer 0 True)]"

text \<open>A world in which a voice alert (task 7) is being dispatched.\<close>

definition voice_alert_running :: world where
  "voice_alert_running =
     (mounted 5000 (Some home) Absent)\<lparr>tasks := [(7, Some 5400, Loop_alert 0)], next_id := 8\<rparr>"

text \<open>
  While the first chunk is being recorded the application goes to the background at 6000
  and returns to the foreground at 20000.
\<close>

definition background_then_foreground :: "(int \<times> event) list" where
  "background_then_foreground =
     [(5000, TapVoiceToggle), (5500, Timer 0 True), (5550, Timer 0 True),
      (6000, AppStateChange Background), (6500, Timer 1 True), (6550, Timer 1 True),
      (8550, Timer 0 True), (9550, Timer 0 True),
      (20000, AppStateChange Active)]"

text \<open>
  While the first chunk is being recorded the user switches voice detection off at 6000
  and on again at 6600; the second loop starts at 7100 and records from 7150.
\<close>

definition off_and_on_again :: "(int \<times> event) list" where
  "off_and_on_again =
     [(5000, TapVoiceToggle), (5500, Timer 0 True), (5550, Timer 0 True),
      (6000, TapVoiceToggle), (6500, Timer 1 True), (6550, Timer 1 True),
      (6600, TapVoiceToggle), (7100, Timer 2 True), (7150, Timer 2 True)]"

definition both_loops_go_on :: "(int \<times> event) list" where
  "both_loops_go_on =
     [(8550, Timer 0 True), (8650, Timer 0 True),
      (10150, Timer 2 True), (11150, Timer 2 True), (11200, Timer 2 True),
      (14200, Timer 2 True), (14300, Timer 2 True)]"


text \<open>The same, with the sensitivity changed after the fix and before the later shakes.\<close>

definition shakes_after_new_sensitivity :: "(int \<times> event) list" where
  "shakes_after_new_sensitivity =
     [(6000, Sample (0, 0, 4)), (7000, LocationFix home), (8000, PickSensitivity High),
      (9000, Sample (0, 0, 4))]"

text \<open>The captures started so far, as the journal shows them.\<close>

fun started :: "notice \<Rightarrow> bool" where
  "started (CaptureStarted r) = True"
| "started n = False"

definition captures :: "world \<Rightarrow> nat" where
  "captures w = length (filter started (journal w))"

text \<open>
  A transcription request fails when no usable token is stored or the POST is rejected
  (timeout, network error, non-2xx status).
\<close>

definition request_fails :: "backend \<Rightarrow> bool" where
  "request_fails env =
     (case token env of
        Inl e \<Rightarrow> True
      | Inr None \<Rightarrow> True
      | Inr (Some tk) \<Rightarrow> tk = [] \<or> (case post env of Inl e \<Rightarrow> True | Inr d \<Rightarrow> False))"

text \<open>
  The loop task is suspended on its transcription request, nobody has asked it to stop,
  and no capture is in progress.
\<close>

definition awaiting_transcription :: "nat \<Rightarrow> world \<Rightarrow> bool" where
  "awaiting_transcription tid w =
     (case task_at w tid of
        Some (None, Loop_transcribe uri) \<Rightarrow>
          listeningLoopRef w \<and> \<not> recordingLock w \<and> recording w = None
      | _ \<Rightarrow> False)"

text \<open>
  One round of the loop: the backend's answer arrives, then the four timers of the
  inter-chunk delay and of the next capture expire, with the recorder working.
\<close>

definition loop_round :: "backend \<Rightarrow> nat \<Rightarrow> world \<Rightarrow> world" where
  "loop_round env tid w =
     resume True tid (resume True tid (resume True tid (resume True tid (reply env tid w))))"

fun failure_noted :: "notice \<Rightarrow> bool" where
  "failure_noted TranscriptionFailed = True"
| "failure_noted n = False"

fun keyword_noted :: "notice \<Rightarrow> bool" where
  "keyword_noted KeywordAlertToast = True"
| "keyword_noted n = False"

section \<open>Properties of the shake detector\<close>

lemma sqrt_gt_iff: "0 \<le> t \<Longrightarrow> (t < sqrt a) = (t * t < a)"
  by (metis abs_of_nonneg real_sqrt_abs2 real_sqrt_less_iff)

text \<open>
  The square root is not computed when the listener is evaluated: comparing it with the
  threshold is comparing the sum of squares with the threshold's square.
\<close>

lemma exceeds_iff:
  "(t < acceleration (x, y, z)) = (t < 0 \<or> t * t < x * x + y * y + z * z)"
proof (cases "0 \<le> t")
  case True
  then show ?thesis by (simp add: sqrt_gt_iff)
next
  case False
  have "0 \<le> sqrt (x * x + y * y + z * z)" by simp
  with False show ?thesis by (simp del: real_sqrt_ge_0_iff)
qed

lemma listener_code [code]:
  "listener (x, y, z) now s =
     (if shakeThreshold s < 0 \<or> shakeThreshold s * shakeThreshold s < x * x + y * y + z * z then
        (if now - lastShakeTime s > shakeTimeout
         then (s\<lparr>lastShakeTime := now\<rparr>, onShakeCallback s)
         else (s, False))
      else (s, False))"
  unfolding listener_def exceeds_iff by simp

lemma listener_keeps [simp]:
  "shakeThreshold (fst (listener v t s)) = shakeThreshold s"
  "onShakeCallback (fst (listener v t s)) = onShakeCallback s"
  "subscription (fst (listener v t s)) = subscription s"
  by (simp_all add: listener_def)

lemma feed_append:
  "feed (ss @ ts) s = feed ss s @ feed ts (after_feed ss s)"
  by (induction ss arbitrary: s) auto

lemma after_feed_keeps [simp]:
  "shakeThreshold (after_feed ss s) = shakeThreshold s"
  "onShakeCallback (after_feed ss s) = onShakeCallback s"
  by (induction ss arbitrary: s) auto

lemma shake_times_Cons:
  "shake_times ((t, v) # ss) s =
     (if snd (listener v t s) then [t] else []) @ shake_times ss (fst (listener v t s))"
  by (simp add: shake_times_def)

lemma last_shake_tracks:
  "onShakeCallback s \<Longrightarrow>
   lastShakeTime (after_feed ss s) = last (lastShakeTime s # shake_times ss s)"
proof (induction ss arbitrary: s)
  case Nil
  then show ?case by (simp add: shake_times_def)
next
  case (Cons p ss)
  obtain t v where p: "p = (t, v)" by (cases p)
  let ?s' = "fst (listener v t s)"
  have cb: "onShakeCallback ?s'" using Cons.prems by simp
  have ih: "lastShakeTime (after_feed ss ?s') = last (lastShakeTime ?s' # shake_times ss ?s')"
    by (rule Cons.IH [OF cb])
  show ?case
  proof (cases "snd (listener v t s)")
    case True
    then have "lastShakeTime ?s' = t"
      by (auto simp: listener_def split: if_splits)
    with ih True show ?thesis by (simp add: p shake_times_Cons)
  next
    case False
    then have "lastShakeTime ?s' = lastShakeTime s"
      using Cons.prems by (auto simp: listener_def split: if_splits)
    with ih False show ?thesis by (simp add: p shake_times_Cons)
  qed
qed

lemma listener_fires_iff:
  "snd (listener v t s) \<longleftrightarrow>
     acceleration v > shakeThreshold s \<and> t - lastShakeTime s > shakeTimeout \<and> onShakeCallback s"
  by (simp add: listener_def)

text \<open>
  Claim C2, as the code has it. For every sequence of samples \<open>ss\<close> already processed by
  a detector whose callback is installed, the next sample \<open>(t, v)\<close> fires a shake iff its
  magnitude exceeds the current threshold and strictly more than 1000 ms separate \<open>t\<close> from
  the last fired shake (from the initial \<open>lastShakeTime\<close> when none has fired). In
  particular, for a clock reading \<open>T\<close> more than 1000 ms after the initial
  \<open>lastShakeTime = 0\<close>, shakes at \<open>T\<close>, \<open>T + 500\<close> and \<open>T + 1100\<close> fire the first and
  the third only.
\<close>

theorem shake_fires_iff_strict_debounce:
  "(onShakeCallback s \<longrightarrow>
      feed (ss @ [(t, v)]) s =
        feed ss s @ [acceleration v > shakeThreshold s \<and>
                     t - last (lastShakeTime s # shake_times ss s) > 1000])
   \<and> (T > 1000 \<and> acceleration v > threshold_case sens \<longrightarrow>
        feed [(T, v), (T + 500, v), (T + 1100, v)] (start sens new_shake_service)
          = [True, False, True])"
proof (intro conjI impI)
  assume cb: "onShakeCallback s"
  have "feed (ss @ [(t, v)]) s = feed ss s @ [snd (listener v t (after_feed ss s))]"
    by (simp add: feed_append)
  also have "snd (listener v t (after_feed ss s)) \<longleftrightarrow>
      acceleration v > shakeThreshold s \<and>
      t - last (lastShakeTime s # shake_times ss s) > 1000"
    using cb by (simp add: listener_fires_iff last_shake_tracks shakeTimeout_def)
  finally show "feed (ss @ [(t, v)]) s =
      feed ss s @ [acceleration v > shakeThreshold s \<and>
                   t - last (lastShakeTime s # shake_times ss s) > 1000]" .
next
  assume "T > 1000 \<and> acceleration v > threshold_case sens"
  then show "feed [(T, v), (T + 500, v), (T + 1100, v)] (start sens new_shake_service)
      = [True, False, True]"
    by (simp add: listener_def start_def new_shake_service_def shakeTimeout_def)
qed

theorem shake_fires_iff_strict_debounce_witness:
  "onShakeCallback (start Medium new_shake_service)
   \<and> feed ([(5000, (0, 0, 4))] @ [(6001, (0, 0, 4))]) (start Medium new_shake_service)
       = [True, True]
   \<and> (5000::int) > 1000 \<and> acceleration (0, 0, 4) > threshold_case Medium
   \<and> feed [(5000, (0, 0, 4)), (5000 + 500, (0, 0, 4)), (5000 + 1100, (0, 0, 4))]
        (start Medium new_shake_service) = [True, False, True]"
  using shake_fires_iff_strict_debounce
    [of "start Medium new_shake_service" "[(5000, (0, 0, 4))]" 6001 "(0, 0, 4)" 5000 Medium]
  by (simp add: start_def new_shake_service_def listener_def shakeTimeout_def
      shake_times_def sqrt_gt_iff)

text \<open>
  Claim C2 as stated fails at the boundary: a second sample above the threshold exactly
  1000 ms after a fired shake has "at least the debounce window" behind it, and the
  listener's strict comparison suppresses it.
\<close>

theorem shake_at_exactly_1000ms_suppressed:
  "acceleration (0, 0, 4) > shakeThreshold (start Medium new_shake_service)
   \<and> (6000::int) - 5000 \<ge> shakeTimeout
   \<and> feed [(5000, (0, 0, 4)), (6000, (0, 0, 4))] (start Medium new_shake_service)
       = [True, False]"
  by (simp add: start_def new_shake_service_def listener_def shakeTimeout_def sqrt_gt_iff)

text \<open>
  Claim C7. \<open>start\<close> and \<open>setSensitivity\<close> both set the threshold to 3.5 for Low, 2.5
  for Medium and 1.8 for High; hence a sample of magnitude 3.0 that passes the debounce
  check fires under Medium and High and does not fire under Low.
\<close>

theorem sensitivity_thresholds:
  "shakeThreshold (start sens s) = threshold_case sens
   \<and> shakeThreshold (setSensitivity sens s) = threshold_case sens
   \<and> threshold_case Low = 3.5 \<and> threshold_case Medium = 2.5 \<and> threshold_case High = 1.8
   \<and> (acceleration v = 3 \<and> now - lastShakeTime s > shakeTimeout \<longrightarrow>
        (snd (listener v now (start sens s)) \<longleftrightarrow> sens \<noteq> Low)
        \<and> (onShakeCallback s \<longrightarrow>
             (snd (listener v now (setSensitivity sens s)) \<longleftrightarrow> sens \<noteq> Low)))"
  by (cases sens) (simp_all add: start_def setSensitivity_def listener_def)

theorem sensitivity_thresholds_witness:
  "acceleration (0, 0, 3) = 3
   \<and> 5000 - lastShakeTime new_shake_service > shakeTimeout
   \<and> snd (listener (0, 0, 3) 5000 (start Medium new_shake_service))
   \<and> snd (listener (0, 0, 3) 5000 (start High new_shake_service))
   \<and> \<not> snd (listener (0, 0, 3) 5000 (start Low new_shake_service))
   \<and> onShakeCallback (start Low new_shake_service)
   \<and> snd (listener (0, 0, 3) 5000 (setSensitivity High (start Low new_shake_service)))"
proof -
  have a: "acceleration (0, 0, 3) = 3"
    using real_sqrt_abs2 [of 3] by simp
  have d: "5000 - lastShakeTime new_shake_service > shakeTimeout"
    "5000 - lastShakeTime (start Low new_shake_service) > shakeTimeout"
    by (simp_all add: new_shake_service_def shakeTimeout_def start_def)
  have c: "onShakeCallback (start Low new_shake_service)"
    by (simp add: start_def)
  show ?thesis
    using a d c
      sensitivity_thresholds [of Medium new_shake_service "(0, 0, 3)" 5000]
      sensitivity_thresholds [of High new_shake_service "(0, 0, 3)" 5000]
      sensitivity_thresholds [of Low new_shake_service "(0, 0, 3)" 5000]
      sensitivity_thresholds [of High "start Low new_shake_service" "(0, 0, 3)" 5000]
    by simp
qed

section \<open>Properties of the transcription request\<close>

lemma transcribeAudio_catch_result:
  "transcribeAudio_catch e =
     Inr \<lparr>success = False, transcript = [], containsKeyword = False, hasVoice = False\<rparr>"
  by (cases e) simp_all

text \<open>
  Claim C10. \<open>transcribeAudio\<close> never hands an exception to its caller, and on every
  failure (no stored token, an empty one, a rejected storage read, a timeout, a network
  error, a non-2xx status or any other rejection of the request) it returns the record
  with \<open>success\<close>, \<open>containsKeyword\<close> and \<open>hasVoice\<close> false and an empty transcript.
\<close>

theorem transcribeAudio_never_throws:
  "(\<exists>r. transcribeAudio env = Inr r)
   \<and> ((token env = Inr None \<or> token env = Inr (Some []) \<or> (\<exists>e. token env = Inl e)
        \<or> (\<exists>e. post env = Inl e)) \<longrightarrow>
       transcribeAudio env =
         Inr \<lparr>success = False, transcript = [], containsKeyword = False, hasVoice = False\<rparr>)"
  by (auto simp: transcribeAudio_def transcribeAudio_try_def transcribeAudio_catch_result
      split: sum.splits option.splits)

theorem transcribeAudio_never_throws_witness:
  "transcribeAudio \<lparr>token = Inr (Some ''jwt''), post = Inl ECONNABORTED\<rparr> =
     Inr \<lparr>success = False, transcript = [], containsKeyword = False, hasVoice = False\<rparr>
   \<and> transcribeAudio \<lparr>token = Inr None, post = Inl (HttpStatus 500)\<rparr> =
     Inr \<lparr>success = False, transcript = [], containsKeyword = False, hasVoice = False\<rparr>"
  using transcribeAudio_never_throws [of "\<lparr>token = Inr (Some ''jwt''), post = Inl ECONNABORTED\<rparr>"]
    transcribeAudio_never_throws [of "\<lparr>token = Inr None, post = Inl (HttpStatus 500)\<rparr>"]
  by simp

section \<open>The task table\<close>

lemma map_of_without [simp]: "map_of (filter (\<lambda>e. fst e \<noteq> tid) xs) tid = None"
  by (induction xs) auto

lemma map_of_without_other [simp]:
  "t \<noteq> tid \<Longrightarrow> map_of (filter (\<lambda>e. fst e \<noteq> tid) xs) t = map_of xs t"
  by (induction xs) auto

lemma task_at_sleep [simp]: "task_at (sleep d p tid w) tid = Some (Some (clock w + d), p)"
  by (simp add: task_at_def sleep_def map_add_def)

lemma task_at_await_reply [simp]: "task_at (await_reply p tid w) tid = Some (None, p)"
  by (simp add: task_at_def await_reply_def map_add_def)

lemma task_at_drop_task [simp]: "task_at (drop_task tid w) tid = None"
  by (simp add: task_at_def drop_task_def)

section \<open>What the bookkeeping operations leave alone\<close>

lemma say_frame [simp]:
  "clock (say n w) = clock w"
  "shake (say n w) = shake w"
  "recording (say n w) = recording w"
  "isRecording (say n w) = isRecording w"
  "isInitialized (say n w) = isInitialized w"
  "recordingLock (say n w) = recordingLock w"
  "listeningLoopRef (say n w) = listeningLoopRef w"
  "isListening (say n w) = isListening w"
  "voice_isEnabled (say n w) = voice_isEnabled w"
  "shake_isEnabled (say n w) = shake_isEnabled w"
  "shake_sensitivity (say n w) = shake_sensitivity w"
  "currentLocation (say n w) = currentLocation w"
  "shake_currentLocation (say n w) = shake_currentLocation w"
  "voice_currentLocation (say n w) = voice_currentLocation w"
  "micPermission (say n w) = micPermission w"
  "demo_guardians (say n w) = demo_guardians w"
  "demo_alerts (say n w) = demo_alerts w"
  "tasks (say n w) = tasks w"
  "next_id (say n w) = next_id w"
  "next_recording (say n w) = next_recording w"
  by (simp_all add: say_def)

lemma journal_say [simp]: "journal (say n w) = journal w @ [n]"
  by (simp add: say_def)

lemma sleep_frame [simp]:
  "clock (sleep d p tid w) = clock w"
  "shake (sleep d p tid w) = shake w"
  "recording (sleep d p tid w) = recording w"
  "isRecording (sleep d p tid w) = isRecording w"
  "isInitialized (sleep d p tid w) = isInitialized w"
  "recordingLock (sleep d p tid w) = recordingLock w"
  "listeningLoopRef (sleep d p tid w) = listeningLoopRef w"
  "isListening (sleep d p tid w) = isListening w"
  "voice_isEnabled (sleep d p tid w) = voice_isEnabled w"
  "shake_isEnabled (sleep d p tid w) = shake_isEnabled w"
  "shake_sensitivity (sleep d p tid w) = shake_sensitivity w"
  "currentLocation (sleep d p tid w) = currentLocation w"
  "shake_currentLocation (sleep d p tid w) = shake_currentLocation w"
  "voice_currentLocation (sleep d p tid w) = voice_currentLocation w"
  "micPermission (sleep d p tid w) = micPermission w"
  "demo_guardians (sleep d p tid w) = demo_guardians w"
  "demo_alerts (sleep d p tid w) = demo_alerts w"
  "journal (sleep d p tid w) = journal w"
  "next_id (sleep d p tid w) = next_id w"
  "next_recording (sleep d p tid w) = next_recording w"
  by (simp_all add: sleep_def)

lemma tasks_sleep:
  "tasks (sleep d p tid w) = filter (\<lambda>e. fst e \<noteq> tid) (tasks w) @ [(tid, Some (clock w + d), p)]"
  by (simp add: sleep_def)

lemma await_reply_frame [simp]:
  "clock (await_reply p tid w) = clock w"
  "shake (await_reply p tid w) = shake w"
  "recording (await_reply p tid w) = recording w"
  "isRecording (await_reply p tid w) = isRecording w"
  "isInitialized (await_reply p tid w) = isInitialized w"
  "recordingLock (await_reply p tid w) = recordingLock w"
  "listeningLoopRef (await_reply p tid w) = listeningLoopRef w"
  "isListening (await_reply p tid w) = isListening w"
  "voice_isEnabled (await_reply p tid w) = voice_isEnabled w"
  "shake_isEnabled (await_reply p tid w) = shake_isEnabled w"
  "shake_sensitivity (await_reply p tid w) = shake_sensitivity w"
  "currentLocation (await_reply p tid w) = currentLocation w"
  "shake_currentLocation (await_reply p tid w) = shake_currentLocation w"
  "voice_currentLocation (await_reply p tid w) = voice_currentLocation w"
  "micPermission (await_reply p tid w) = micPermission w"
  "demo_guardians (await_reply p tid w) = demo_guardians w"
  "demo_alerts (await_reply p tid w) = demo_alerts w"
  "journal (await_reply p tid w) = journal w"
  "next_id (await_reply p tid w) = next_id w"
  "next_recording (await_reply p tid w) = next_recording w"
  by (simp_all add: await_reply_def)

lemma tasks_await_reply:
  "tasks (await_reply p tid w) = filter (\<lambda>e. fst e \<noteq> tid) (tasks w) @ [(tid, None, p)]"
  by (simp add: await_reply_def)

lemma drop_task_frame [simp]:
  "clock (drop_task tid w) = clock w"
  "shake (drop_task tid w) = shake w"
  "recording (drop_task tid w) = recording w"
  "isRecording (drop_task tid w) = isRecording w"
  "isInitialized (drop_task tid w) = isInitialized w"
  "recordingLock (drop_task tid w) = recordingLock w"
  "listeningLoopRef (drop_task tid w) = listeningLoopRef w"
  "isListening (drop_task tid w) = isListening w"
  "voice_isEnabled (drop_task tid w) = voice_isEnabled w"
  "shake_isEnabled (drop_task tid w) = shake_isEnabled w"
  "shake_sensitivity (drop_task tid w) = shake_sensitivity w"
  "currentLocation (drop_task tid w) = currentLocation w"
  "shake_currentLocation (drop_task tid w) = shake_currentLocation w"
  "voice_currentLocation (drop_task tid w) = voice_currentLocation w"
  "micPermission (drop_task tid w) = micPermission w"
  "demo_guardians (drop_task tid w) = demo_guardians w"
  "demo_alerts (drop_task tid w) = demo_alerts w"
  "journal (drop_task tid w) = journal w"
  "next_id (drop_task tid w) = next_id w"
  "next_recording (drop_task tid w) = next_recording w"
  by (simp_all add: drop_task_def)


lemma persisted_parsed: "parsed (demo_alerts w) = Some old \<Longrightarrow> persisted w = old"
  by (auto simp: parsed_def persisted_def split: item.splits)

lemma persisted_frame [simp]:
  "persisted (say n w) = persisted w"
  "persisted (sleep d p tid w) = persisted w"
  "persisted (await_reply p tid w) = persisted w"
  "persisted (drop_task tid w) = persisted w"
  by (simp_all add: persisted_def)

lemma save_alert_Some:
  "parsed (demo_guardians w) = Some gs \<Longrightarrow> parsed (demo_alerts w) = Some old \<Longrightarrow>
   save_alert ttype msg l w =
     Some (Some (length gs),
           w\<lparr>demo_alerts := Stored (\<lparr>alert_id = clock w, triggerType = ttype, status = ''ACTIVE'',
                 latitude = loc_latitude l, longitude = loc_longitude l,
                 address = loc_address l, message = msg, createdAt = clock w\<rparr> # old)\<rparr>)"
  by (auto simp: save_alert_def parsed_def split: item.splits)

section \<open>Properties of the alert dispatch\<close>

lemma handleShakeDetected_0_sends:
  assumes "shake_currentLocation w = Some l" "parsed (demo_guardians w) = Some gs"
    "parsed (demo_alerts w) = Some old"
  shows "handleShakeDetected_0 tid w =
     sleep 1000 (Shake_alert (length gs)) tid
       ((say ShakeDetectedToast w)\<lparr>demo_alerts := Stored
           (\<lparr>alert_id = clock w, triggerType = ''manual'', status = ''ACTIVE'',
             latitude = loc_latitude l, longitude = loc_longitude l,
             address = loc_address l, message = shake_message, createdAt = clock w\<rparr> # old)\<rparr>)"
  using assms
  by (simp add: handleShakeDetected_0_def Let_def
      save_alert_Some [of "say ShakeDetectedToast w" gs old])

lemma triggerEmergencyAlert_0_sends:
  assumes "voice_currentLocation w = Some l" "parsed (demo_guardians w) = Some gs"
    "parsed (demo_alerts w) = Some old"
  shows "triggerEmergencyAlert_0 tid w =
     sleep 1000 (Loop_alert (length gs)) tid
       (w\<lparr>demo_alerts := Stored
           (\<lparr>alert_id = clock w, triggerType = ''voice'', status = ''ACTIVE'',
             latitude = loc_latitude l, longitude = loc_longitude l,
             address = loc_address l, message = voice_message, createdAt = clock w\<rparr> # old)\<rparr>)"
  using assms
  by (simp add: triggerEmergencyAlert_0_def save_alert_Some [of w gs old])

lemma stopListening_0_frame [simp]:
  "persisted (stopListening_0 k tid w) = persisted w"
  "journal (stopListening_0 k tid w) = journal w"
  "demo_alerts (stopListening_0 k tid w) = demo_alerts w"
  "clock (stopListening_0 k tid w) = clock w"
  "task_at (stopListening_0 k tid w) tid = Some (Some (clock w + 500), Stop_wait k)"
  "listeningLoopRef (stopListening_0 k tid w) = False"
  by (simp_all add: stopListening_0_def persisted_def)

text \<open>
  Claim C9, as the code has it. With readable storage and a location in the handler's
  closure, one call of a trigger handler puts exactly one new alert in front of the
  stored list, and the second segment of the dispatch stores nothing more. The alert of
  a voice trigger carries \<open>triggerType = ''voice''\<close>; the alert of a shake trigger
  carries \<open>triggerType = ''manual''\<close> and names the shake detection in its message only.
\<close>

theorem alert_trigger_types:
  "(parsed (demo_guardians w) = Some gs \<and> parsed (demo_alerts w) = Some old \<longrightarrow>
      (shake_currentLocation w = Some l \<longrightarrow>
         persisted (handleShakeDetected_0 tid w) =
           \<lparr>alert_id = clock w, triggerType = ''manual'', status = ''ACTIVE'',
            latitude = loc_latitude l, longitude = loc_longitude l,
            address = loc_address l, message = shake_message, createdAt = clock w\<rparr> # old)
      \<and> (voice_currentLocation w = Some l \<longrightarrow>
         persisted (triggerEmergencyAlert_0 tid w) =
           \<lparr>alert_id = clock w, triggerType = ''voice'', status = ''ACTIVE'',
            latitude = loc_latitude l, longitude = loc_longitude l,
            address = loc_address l, message = voice_message, createdAt = clock w\<rparr> # old))
   \<and> persisted (handleShakeDetected_1 n tid w) = persisted w
   \<and> persisted (triggerEmergencyAlert_1 n tid w) = persisted w"
  by (simp add: handleShakeDetected_0_sends triggerEmergencyAlert_0_sends
      handleShakeDetected_1_def triggerEmergencyAlert_1_def)
    (simp add: persisted_def)

theorem alert_trigger_types_witness:
  "parsed (demo_guardians (mounted 5000 (Some home) Absent)) = Some []
   \<and> parsed (demo_alerts (mounted 5000 (Some home) Absent)) = Some []
   \<and> shake_currentLocation (mounted 5000 (Some home) Absent) = Some home
   \<and> voice_currentLocation (mounted 5000 (Some home) Absent) = Some home
   \<and> persisted (handleShakeDetected_0 0 (mounted 5000 (Some home) Absent)) =
     [\<lparr>alert_id = 5000, triggerType = ''manual'', status = ''ACTIVE'',
       latitude = 1, longitude = 2, address = None, message = shake_message, createdAt = 5000\<rparr>]
   \<and> persisted (triggerEmergencyAlert_0 0 (mounted 5000 (Some home) Absent)) =
     [\<lparr>alert_id = 5000, triggerType = ''voice'', status = ''ACTIVE'',
       latitude = 1, longitude = 2, address = None, message = voice_message, createdAt = 5000\<rparr>]"
  using alert_trigger_types [of "mounted 5000 (Some home) Absent" "[]" "[]" home 0]
  by (simp add: mounted_def parsed_def home_def)

text \<open>
  Claim C9 as stated fails: the alert persisted for a detected shake has the trigger type
  of the manual SOS button, not a kind of its own.
\<close>

theorem shake_alert_recorded_as_manual:
  "map_option (map triggerType \<circ> persisted)
     (exec [(5000, Sample (0, 0, 4))]
        (mounted 5000 (Some \<lparr>loc_latitude = 1, loc_longitude = 2, loc_address = None\<rparr>) Absent))
   = Some [''manual'']"
  by code_simp

lemma filter_absent: "tid \<notin> fst ` set xs \<Longrightarrow> filter (\<lambda>e. fst e \<noteq> tid) xs = xs"
  by (induction xs) auto

text \<open>
  Claim C1, as the code has it. Neither handler keeps an in-flight flag. With readable
  storage and a location in the handler's closure, a shake that the listener fires and a
  keyword result in the listening loop each start a dispatch of their own at once,
  whatever other dispatches are in flight: the tasks already there stay as they are, the
  trigger's task enters the 1000 ms "sending" wait and its alert is stored. A trigger
  arriving during a dispatch is neither queued nor dropped.
\<close>

theorem trigger_starts_own_dispatch:
  "parsed (demo_guardians w) = Some gs \<and> parsed (demo_alerts w) = Some old \<longrightarrow>
   (shake_currentLocation w = Some l \<and> subscription (shake w)
      \<and> snd (listener v (clock w) (shake w)) \<longrightarrow>
      tasks (on_sample v w) =
        filter (\<lambda>e. fst e \<noteq> next_id w) (tasks w)
          @ [(next_id w, Some (clock w + 1000), Shake_alert (length gs))]
      \<and> length (persisted (on_sample v w)) = length old + 1
      \<and> (next_id w \<notin> fst ` set (tasks w) \<longrightarrow>
           count_tasks dispatching (on_sample v w) = count_tasks dispatching w + 1))
   \<and> (voice_currentLocation w = Some l
      \<and> success r \<and> hasVoice r \<and> transcript r \<noteq> [] \<and> containsKeyword r \<longrightarrow>
      tasks (loop_on_result r tid w) =
        filter (\<lambda>e. fst e \<noteq> tid) (tasks w)
          @ [(tid, Some (clock w + 1000), Loop_alert (length gs))]
      \<and> length (persisted (loop_on_result r tid w)) = length old + 1)"
proof (intro impI conjI)
  assume h: "parsed (demo_guardians w) = Some gs \<and> parsed (demo_alerts w) = Some old"
  {
    assume f: "shake_currentLocation w = Some l \<and> subscription (shake w)
      \<and> snd (listener v (clock w) (shake w))"
    let ?w1 = "w\<lparr>shake := fst (listener v (clock w) (shake w)), next_id := Suc (next_id w)\<rparr>"
    have 1: "shake_currentLocation ?w1 = Some l" "parsed (demo_guardians ?w1) = Some gs"
      "parsed (demo_alerts ?w1) = Some old"
      using h f by simp_all
    have e: "on_sample v w = handleShakeDetected_0 (next_id w) ?w1"
      using f by (simp add: on_sample_def spawn_def)
    show t: "tasks (on_sample v w) =
        filter (\<lambda>e. fst e \<noteq> next_id w) (tasks w)
          @ [(next_id w, Some (clock w + 1000), Shake_alert (length gs))]"
      unfolding e handleShakeDetected_0_sends [OF 1] by (simp add: tasks_sleep)
    show "length (persisted (on_sample v w)) = length old + 1"
      unfolding e handleShakeDetected_0_sends [OF 1] by (simp add: persisted_def)
    {
      assume "next_id w \<notin> fst ` set (tasks w)"
      then show "count_tasks dispatching (on_sample v w) = count_tasks dispatching w + 1"
        by (simp add: count_tasks_def t filter_absent)
    }
  }
  {
    assume k: "voice_currentLocation w = Some l
      \<and> success r \<and> hasVoice r \<and> transcript r \<noteq> [] \<and> containsKeyword r"
    let ?w1 = "say KeywordAlertToast w"
    have 1: "voice_currentLocation ?w1 = Some l" "parsed (demo_guardians ?w1) = Some gs"
      "parsed (demo_alerts ?w1) = Some old"
      using h k by simp_all
    have e: "loop_on_result r tid w = triggerEmergencyAlert_0 tid ?w1"
      using k by (simp add: loop_on_result_def)
    show "tasks (loop_on_result r tid w) =
        filter (\<lambda>e. fst e \<noteq> tid) (tasks w)
          @ [(tid, Some (clock w + 1000), Loop_alert (length gs))]"
      unfolding e triggerEmergencyAlert_0_sends [OF 1] by (simp add: tasks_sleep)
    show "length (persisted (loop_on_result r tid w)) = length old + 1"
      unfolding e triggerEmergencyAlert_0_sends [OF 1] by (simp add: persisted_def)
  }
qed

theorem trigger_starts_own_dispatch_witness:
  "shake_currentLocation voice_alert_running = Some home
   \<and> voice_currentLocation voice_alert_running = Some home
   \<and> parsed (demo_guardians voice_alert_running) = Some []
   \<and> parsed (demo_alerts voice_alert_running) = Some []
   \<and> subscription (shake voice_alert_running)
   \<and> snd (listener (0, 0, 4) (clock voice_alert_running) (shake voice_alert_running))
   \<and> next_id voice_alert_running \<notin> fst ` set (tasks voice_alert_running)
   \<and> count_tasks dispatching voice_alert_running = 1
   \<and> count_tasks dispatching (on_sample (0, 0, 4) voice_alert_running) = 2
   \<and> tasks (on_sample (0, 0, 4) voice_alert_running)
       = [(7, Some 5400, Loop_alert 0), (8, Some 6000, Shake_alert 0)]
   \<and> tasks (loop_on_result
         \<lparr>success = True, transcript = ''Astra'', containsKeyword = True, hasVoice = True\<rparr>
         9 voice_alert_running)
       = [(7, Some 5400, Loop_alert 0), (9, Some 6000, Loop_alert 0)]"
proof -
  have h: "shake_currentLocation voice_alert_running = Some home"
    "voice_currentLocation voice_alert_running = Some home"
    "parsed (demo_guardians voice_alert_running) = Some []"
    "parsed (demo_alerts voice_alert_running) = Some []"
    "subscription (shake voice_alert_running)"
    "snd (listener (0, 0, 4) (clock voice_alert_running) (shake voice_alert_running))"
    "next_id voice_alert_running \<notin> fst ` set (tasks voice_alert_running)"
    "count_tasks dispatching voice_alert_running = 1"
    "clock voice_alert_running = 5000" "next_id voice_alert_running = 8"
    "tasks voice_alert_running = [(7, Some 5400, Loop_alert 0)]"
    by (simp_all add: voice_alert_running_def mounted_def parsed_def start_def
        new_shake_service_def listener_code shakeTimeout_def count_tasks_def)
  show ?thesis
    using h trigger_starts_own_dispatch
      [of voice_alert_running "[]" "[]" home "(0, 0, 4)"
          "\<lparr>success = True, transcript = ''Astra'', containsKeyword = True, hasVoice = True\<rparr>" 9]
    by simp
qed

text \<open>
  Claim C1 as stated fails. The keyword is heard at 9000 and its alert is being sent until
  10000; a shake at 9200 is not dropped: its handler stores a second alert and a second
  dispatch is in flight beside the first.
\<close>

theorem two_dispatches_in_flight:
  "map_option (count_tasks dispatching)
     (exec (first_capture @ [(9000, Reply 0 astra_heard), (9200, Sample (0, 0, 4))])
        (mounted 5000 (Some home) Absent)) = Some 2
   \<and> map_option (map triggerType \<circ> persisted)
     (exec (first_capture @ [(9000, Reply 0 astra_heard), (9200, Sample (0, 0, 4))])
        (mounted 5000 (Some home) Absent)) = Some [''manual'', ''voice'']"
  by code_simp





text \<open>
  Only a new run of the provider's effect gives the callback the location: with the
  sensitivity changed after the fix, the next shake stores its alert.
\<close>

lemma shake_after_new_sensitivity_is_stored:
  "map_option (map triggerType \<circ> persisted)
     (exec shakes_after_new_sensitivity (mounted 5000 None Absent)) = Some [''manual'']"
  by code_simp

text \<open>
  The states from which the schedules above start with a location are reached from the
  mount without one: after the first fix, two changes of the sensitivity (away from
  Medium and back) and the tap on the voice toggle, the application is in the state that
  the tap gives from \<open>mounted 5000 (Some home) Absent\<close>.
\<close>

lemma location_reaches_the_closures:
  "exec [(5100, LocationFix home), (5200, PickSensitivity High), (5300, PickSensitivity Medium),
         (5400, TapVoiceToggle)]
     (mounted 5000 None Absent)
   = exec [(5400, TapVoiceToggle)] (mounted 5000 (Some home) Absent)"
  by code_simp

section \<open>Properties of the lifecycle handlers\<close>

text \<open>
  Claim C6 at work on the voice detector. Going to the background starts
  \<open>stopListening\<close>, which clears the loop flag; the handler's branch for the
  foreground ("resume if was listening before") requires that very flag to be set, so
  for either value of \<open>isEnabled\<close> it does nothing afterwards. In the schedule
  \<open>background_then_foreground\<close> the shake detector is active again at the end and the
  voice detector, still enabled by the user, is not listening and has no task.
\<close>

theorem voice_not_resumed_on_foreground:
  "listeningLoopRef (voice_handleAppStateChange en Background w) = False
   \<and> listeningLoopRef (voice_handleAppStateChange en Inactive w) = False
   \<and> voice_handleAppStateChange en' Active (voice_handleAppStateChange en Background w)
       = voice_handleAppStateChange en Background w
   \<and> map_option listeningLoopRef
        (exec background_then_foreground (mounted 5000 (Some home) Absent)) = Some False
   \<and> map_option tasks
        (exec background_then_foreground (mounted 5000 (Some home) Absent)) = Some []
   \<and> map_option voice_isEnabled
        (exec background_then_foreground (mounted 5000 (Some home) Absent)) = Some True
   \<and> map_option (isActive \<circ> shake)
        (exec background_then_foreground (mounted 5000 (Some home) Absent)) = Some True"
proof -
  have a: "listeningLoopRef (voice_handleAppStateChange en st w) = False"
    if "st = Background \<or> st = Inactive" for st
    using that by (auto simp: voice_handleAppStateChange_def spawn_def stopListening_0_def)
  have b: "voice_handleAppStateChange en' Active w' = w'" if "listeningLoopRef w' = False" for w'
    using that by (simp add: voice_handleAppStateChange_def)
  have c: "map_option listeningLoopRef
        (exec background_then_foreground (mounted 5000 (Some home) Absent)) = Some False"
    by code_simp
  have d: "map_option tasks
        (exec background_then_foreground (mounted 5000 (Some home) Absent)) = Some []"
    by code_simp
  have e: "map_option voice_isEnabled
        (exec background_then_foreground (mounted 5000 (Some home) Absent)) = Some True"
    by code_simp
  have f: "map_option (isActive \<circ> shake)
        (exec background_then_foreground (mounted 5000 (Some home) Absent)) = Some True"
    by code_simp
  show ?thesis using a b c d e f by simp
qed

section \<open>Properties of the listening loop\<close>

text \<open>
  The two local rejections hold: \<open>recordChunk\<close> entered while the lock is held
  returns no chunk and touches neither the lock nor the recording, and
  \<open>startListening\<close> entered while the loop flag is set returns at once.
\<close>

lemma recordChunk_locked:
  "recordingLock w \<Longrightarrow>
   recordChunk_0 tid w = sleep 1000 Loop_retry tid (say RecordingLocked w)"
  by (simp add: recordChunk_0_def loop_after_record_def)

lemma startListening_already_listening:
  "listeningLoopRef w \<Longrightarrow> startListening tid w = drop_task tid (say AlreadyListening w)"
  by (simp add: startListening_def)

text \<open>
  Claim C8 at work. Voice detection is switched off and on again while the first chunk
  is still being recorded: \<open>cleanup\<close> has released the lock the first
  \<open>recordChunk\<close> holds and the flag is set again, so the second loop enters
  \<open>recordChunk\<close> beside the first (two captures outstanding at 7150), the first loop
  survives, and at 14300 both loops have a transcription request outstanding.
\<close>

theorem stop_and_restart_runs_two_loops:
  "map_option (count_tasks capturing)
     (exec off_and_on_again (mounted 5000 (Some home) Absent)) = Some 2
   \<and> map_option tasks
     (exec off_and_on_again (mounted 5000 (Some home) Absent))
       = Some [(0, Some 8550, RC_record), (2, Some 10150, RC_record)]
   \<and> map_option (count_tasks transcribing)
     (exec (off_and_on_again @ both_loops_go_on) (mounted 5000 (Some home) Absent)) = Some 2"
  by code_simp

lemma task_at_stopListening_1:
  "task_at (stopListening_1 k tid w) tid = Some (Some (clock w + 50), Stop_cleanup k)"
  by (simp add: stopListening_1_def Let_def split: option.splits)

lemma stopListening_1_effect:
  "listeningLoopRef (stopListening_1 k tid w) = listeningLoopRef w"
  "\<not> recordingLock (stopListening_1 k tid w)"
  "recording (stopListening_1 k tid w) = None"
  "\<not> isRecording (stopListening_1 k tid w)"
  "demo_alerts (stopListening_1 k tid w) = demo_alerts w"
  "filter started (journal (stopListening_1 k tid w)) = filter started (journal w)"
  "set (journal w) \<subseteq> set (journal (stopListening_1 k tid w))"
  by (auto simp: stopListening_1_def Let_def split: option.splits)

lemma stopListening_2_after_keyword:
  "task_at (stopListening_2 AfterKeyword tid w) tid = None"
  "\<not> isListening (stopListening_2 AfterKeyword tid w)"
  "\<not> isInitialized (stopListening_2 AfterKeyword tid w)"
  "listeningLoopRef (stopListening_2 AfterKeyword tid w) = listeningLoopRef w"
  "recordingLock (stopListening_2 AfterKeyword tid w) = recordingLock w"
  "recording (stopListening_2 AfterKeyword tid w) = recording w"
  "demo_alerts (stopListening_2 AfterKeyword tid w) = demo_alerts w"
  "journal (stopListening_2 AfterKeyword tid w) = journal w"
  by (simp_all add: stopListening_2_def loop_exit_def)

text \<open>
  \<open>stopListening\<close> awaited by the loop after a keyword: the flag is cleared and the
  task waits 500 ms; its next timer runs \<open>cleanup\<close> up to the 50 ms wait; the one
  after ends the task.
\<close>

lemma stop_after_keyword:
  assumes "KeywordAlertToast \<in> set (journal w0)" "captures w0 = captures w" "clock w0 = clock w"
    and a: "a = stopListening_0 AfterKeyword tid w0"
  shows "task_at a tid = Some (Some (clock w + 500), Stop_wait AfterKeyword)
     \<and> \<not> listeningLoopRef a
     \<and> task_at (resume ok tid a) tid = Some (Some (clock w + 50), Stop_cleanup AfterKeyword)
     \<and> task_at (resume ok tid (resume ok tid a)) tid = None
     \<and> \<not> listeningLoopRef (resume ok tid (resume ok tid a))
     \<and> \<not> isListening (resume ok tid (resume ok tid a))
     \<and> \<not> isInitialized (resume ok tid (resume ok tid a))
     \<and> \<not> recordingLock (resume ok tid (resume ok tid a))
     \<and> recording (resume ok tid (resume ok tid a)) = None
     \<and> captures (resume ok tid (resume ok tid a)) = captures w
     \<and> KeywordAlertToast \<in> set (journal (resume ok tid (resume ok tid a)))
     \<and> demo_alerts (resume ok tid (resume ok tid a)) = demo_alerts w0"
proof -
  let ?b = "stopListening_1 AfterKeyword tid a"
  have 1: "resume ok tid a = ?b"
    by (simp add: resume_def a)
  have 2: "resume ok tid ?b = stopListening_2 AfterKeyword tid ?b"
    by (simp add: resume_def task_at_stopListening_1)
  have f: "\<not> listeningLoopRef a" "journal a = journal w0" "clock a = clock w"
    "demo_alerts a = demo_alerts w0"
    "task_at a tid = Some (Some (clock w + 500), Stop_wait AfterKeyword)"
    using assms by simp_all
  show ?thesis
    unfolding 1 2
    using f assms(1,2) stopListening_1_effect [where k = AfterKeyword and tid = tid and w = a]
    by (auto simp: stopListening_2_after_keyword task_at_stopListening_1 captures_def)
qed

lemma save_alert_frame:
  "save_alert ttype msg l w = Some (n, w1) \<Longrightarrow> journal w1 = journal w \<and> clock w1 = clock w"
  by (auto simp: save_alert_def Let_def split: option.splits item.splits)

text \<open>
  Claim C3, as the code has it. When the transcription result has \<open>success\<close>,
  \<open>hasVoice\<close> and \<open>containsKeyword\<close> true and a non-empty transcript, the loop
  shows the keyword alert and calls \<open>triggerEmergencyAlert\<close>: with a location in its
  closure and readable storage the voice alert is stored and the task waits the 1000 ms
  "sending" delay, after which the result is shown and \<open>stopListening\<close> is called.
  In every case, at once or after that one timer, the task is in \<open>stopListening\<close>
  with the loop flag cleared; two more timers of its own (the 500 ms, and the 50 ms of
  \<open>cleanup\<close>) end it with \<open>isListening\<close> and the service's initialisation, lock
  and recording cleared, without another capture started and without another alert
  stored. A result with an empty transcript raises no keyword alert, whatever its other
  fields: the loop waits 300 ms and, with the flag set and the lock free, enters the next
  capture.
\<close>

theorem keyword_stops_loop:
  "(success r \<and> hasVoice r \<and> transcript r \<noteq> [] \<and> containsKeyword r \<longrightarrow>
      (voice_currentLocation w = Some l \<and> parsed (demo_guardians w) = Some gs
         \<and> parsed (demo_alerts w) = Some old \<longrightarrow>
         loop_on_result r tid w =
           sleep 1000 (Loop_alert (length gs)) tid
             ((say KeywordAlertToast w)\<lparr>demo_alerts := Stored
                (\<lparr>alert_id = clock w, triggerType = ''voice'', status = ''ACTIVE'',
                  latitude = loc_latitude l, longitude = loc_longitude l,
                  address = loc_address l, message = voice_message, createdAt = clock w\<rparr> # old)\<rparr>)
         \<and> resume ok tid (loop_on_result r tid w) =
             stopListening_0 AfterKeyword tid
               (say (if length gs = 0 then NoGuardians else AlertSentToast (length gs))
                  (loop_on_result r tid w)))
      \<and> (\<exists>m\<le>1.
           task_at ((resume ok tid ^^ m) (loop_on_result r tid w)) tid
             = Some (Some (clock w + 500), Stop_wait AfterKeyword)
           \<and> \<not> listeningLoopRef ((resume ok tid ^^ m) (loop_on_result r tid w))
           \<and> task_at ((resume ok tid ^^ Suc m) (loop_on_result r tid w)) tid
             = Some (Some (clock w + 50), Stop_cleanup AfterKeyword)
           \<and> task_at ((resume ok tid ^^ Suc (Suc m)) (loop_on_result r tid w)) tid = None
           \<and> \<not> listeningLoopRef ((resume ok tid ^^ Suc (Suc m)) (loop_on_result r tid w))
           \<and> \<not> isListening ((resume ok tid ^^ Suc (Suc m)) (loop_on_result r tid w))
           \<and> \<not> isInitialized ((resume ok tid ^^ Suc (Suc m)) (loop_on_result r tid w))
           \<and> \<not> recordingLock ((resume ok tid ^^ Suc (Suc m)) (loop_on_result r tid w))
           \<and> recording ((resume ok tid ^^ Suc (Suc m)) (loop_on_result r tid w)) = None
           \<and> captures ((resume ok tid ^^ Suc (Suc m)) (loop_on_result r tid w)) = captures w
           \<and> KeywordAlertToast
               \<in> set (journal ((resume ok tid ^^ Suc (Suc m)) (loop_on_result r tid w)))
           \<and> demo_alerts ((resume ok tid ^^ Suc (Suc m)) (loop_on_result r tid w))
               = demo_alerts (loop_on_result r tid w)))
   \<and> (transcript r = [] \<longrightarrow>
        loop_on_result r tid w =
          sleep 300 Loop_delay tid (if success r then w else say TranscriptionFailed w)
        \<and> (listeningLoopRef w \<and> \<not> recordingLock w \<longrightarrow>
             task_at (resume ok tid (loop_on_result r tid w)) tid
               = Some (Some (clock w + 50), RC_cleanup)))"
proof (intro conjI impI)
  assume k: "success r \<and> hasVoice r \<and> transcript r \<noteq> [] \<and> containsKeyword r"
  let ?w0 = "say KeywordAlertToast w"
  let ?L = "loop_on_result r tid w"
  have e: "?L = triggerEmergencyAlert_0 tid ?w0"
    using k by (simp add: loop_on_result_def)
  {
    assume h: "voice_currentLocation w = Some l \<and> parsed (demo_guardians w) = Some gs
         \<and> parsed (demo_alerts w) = Some old"
    have 1: "voice_currentLocation ?w0 = Some l" "parsed (demo_guardians ?w0) = Some gs"
      "parsed (demo_alerts ?w0) = Some old"
      using h by simp_all
    show s: "?L =
           sleep 1000 (Loop_alert (length gs)) tid
             (?w0\<lparr>demo_alerts := Stored
                (\<lparr>alert_id = clock w, triggerType = ''voice'', status = ''ACTIVE'',
                  latitude = loc_latitude l, longitude = loc_longitude l,
                  address = loc_address l, message = voice_message, createdAt = clock w\<rparr> # old)\<rparr>)"
      unfolding e triggerEmergencyAlert_0_sends [OF 1] by simp
    have "task_at ?L tid = Some (Some (clock w + 1000), Loop_alert (length gs))"
      by (subst s) simp
    then show "resume ok tid ?L =
             stopListening_0 AfterKeyword tid
               (say (if length gs = 0 then NoGuardians else AlertSentToast (length gs)) ?L)"
      by (simp add: resume_def triggerEmergencyAlert_1_def)
  }
  let ?Q = "\<lambda>m. task_at ((resume ok tid ^^ m) ?L) tid
             = Some (Some (clock w + 500), Stop_wait AfterKeyword)
           \<and> \<not> listeningLoopRef ((resume ok tid ^^ m) ?L)
           \<and> task_at ((resume ok tid ^^ Suc m) ?L) tid
             = Some (Some (clock w + 50), Stop_cleanup AfterKeyword)
           \<and> task_at ((resume ok tid ^^ Suc (Suc m)) ?L) tid = None
           \<and> \<not> listeningLoopRef ((resume ok tid ^^ Suc (Suc m)) ?L)
           \<and> \<not> isListening ((resume ok tid ^^ Suc (Suc m)) ?L)
           \<and> \<not> isInitialized ((resume ok tid ^^ Suc (Suc m)) ?L)
           \<and> \<not> recordingLock ((resume ok tid ^^ Suc (Suc m)) ?L)
           \<and> recording ((resume ok tid ^^ Suc (Suc m)) ?L) = None
           \<and> captures ((resume ok tid ^^ Suc (Suc m)) ?L) = captures w
           \<and> KeywordAlertToast \<in> set (journal ((resume ok tid ^^ Suc (Suc m)) ?L))
           \<and> demo_alerts ((resume ok tid ^^ Suc (Suc m)) ?L) = demo_alerts ?L"
  have direct: "?Q 0" if L: "?L = stopListening_0 AfterKeyword tid (say x ?w0)"
    and x: "\<not> started x" for x
  proof -
    have "KeywordAlertToast \<in> set (journal (say x ?w0))"
      "captures (say x ?w0) = captures w" "clock (say x ?w0) = clock w"
      using x by (simp_all add: captures_def)
    from stop_after_keyword [OF this L, of ok]
    show ?thesis by (simp add: L)
  qed
  have sent: "?Q 1" if L: "?L = sleep 1000 p tid w1"
    and p: "resume ok tid (sleep 1000 p tid w1)
        = stopListening_0 AfterKeyword tid (say y (sleep 1000 p tid w1))"
    and y: "\<not> started y"
    and w1: "journal w1 = journal ?w0 \<and> clock w1 = clock ?w0" for p w1 y
  proof -
    let ?s = "sleep 1000 p tid w1"
    have "KeywordAlertToast \<in> set (journal (say y ?s))"
      "captures (say y ?s) = captures w" "clock (say y ?s) = clock w"
      using y w1 by (simp_all add: captures_def)
    from stop_after_keyword [OF this p, of ok]
    show ?thesis by (simp add: L)
  qed
  have "?Q 0 \<or> ?Q 1"
  proof (cases "voice_currentLocation w")
    case None
    then have "?L = stopListening_0 AfterKeyword tid (say LocationNotAvailable ?w0)"
      by (simp add: e triggerEmergencyAlert_0_def)
    from direct [OF this] show ?thesis by simp
  next
    case (Some l')
    show ?thesis
    proof (cases "save_alert ''voice'' voice_message l' ?w0")
      case None
      with Some have "?L = stopListening_0 AfterKeyword tid (say FailedToSendAlert ?w0)"
        by (simp add: e triggerEmergencyAlert_0_def)
      from direct [OF this] show ?thesis by simp
    next
      case (Some a)
      obtain n w1 where a: "a = (n, w1)" by (cases a)
      note fr = save_alert_frame [OF Some [unfolded a]]
      show ?thesis
      proof (cases n)
        case None
        have L: "?L = sleep 1000 Loop_alert_no_list tid w1"
          using \<open>voice_currentLocation w = Some l'\<close> Some a None
          by (simp add: e triggerEmergencyAlert_0_def)
        have "resume ok tid (sleep 1000 Loop_alert_no_list tid w1)
            = stopListening_0 AfterKeyword tid
                (say FailedToSendAlert (sleep 1000 Loop_alert_no_list tid w1))"
          by (simp add: resume_def triggerEmergencyAlert_1_no_list_def)
        from sent [OF L this _ fr] show ?thesis by simp
      next
        case (Some c)
        have L: "?L = sleep 1000 (Loop_alert c) tid w1"
          using \<open>voice_currentLocation w = Some l'\<close>
            \<open>save_alert ''voice'' voice_message l' ?w0 = Some a\<close> a Some
          by (simp add: e triggerEmergencyAlert_0_def)
        have "resume ok tid (sleep 1000 (Loop_alert c) tid w1)
            = stopListening_0 AfterKeyword tid
                (say (if c = 0 then NoGuardians else AlertSentToast c)
                   (sleep 1000 (Loop_alert c) tid w1))"
          by (simp add: resume_def triggerEmergencyAlert_1_def)
        from sent [OF L this _ fr] show ?thesis by simp
      qed
    qed
  qed
  then show "\<exists>m\<le>1. ?Q m"
    by (metis le_numeral_extra(4) zero_le)
next
  assume t: "transcript r = []"
  show e: "loop_on_result r tid w =
          sleep 300 Loop_delay tid (if success r then w else say TranscriptionFailed w)"
    using t by (simp add: loop_on_result_def)
  assume f: "listeningLoopRef w \<and> \<not> recordingLock w"
  show "task_at (resume ok tid (loop_on_result r tid w)) tid
               = Some (Some (clock w + 50), RC_cleanup)"
    unfolding e using f
    by (simp add: resume_def loop_top_def recordChunk_0_def Let_def split: option.splits)
qed

theorem keyword_stops_loop_witness:
  "success \<lparr>success = True, transcript = ''Astra'', containsKeyword = True, hasVoice = True\<rparr>
   \<and> hasVoice \<lparr>success = True, transcript = ''Astra'', containsKeyword = True, hasVoice = True\<rparr>
   \<and> transcript \<lparr>success = True, transcript = ''Astra'', containsKeyword = True, hasVoice = True\<rparr> \<noteq> []
   \<and> containsKeyword \<lparr>success = True, transcript = ''Astra'', containsKeyword = True, hasVoice = True\<rparr>
   \<and> voice_currentLocation (mounted 5000 (Some home) Absent) = Some home
   \<and> parsed (demo_guardians (mounted 5000 (Some home) Absent)) = Some []
   \<and> parsed (demo_alerts (mounted 5000 (Some home) Absent)) = Some []
   \<and> map triggerType (persisted (loop_on_result
        \<lparr>success = True, transcript = ''Astra'', containsKeyword = True, hasVoice = True\<rparr>
        0 (mounted 5000 (Some home) Absent))) = [''voice'']
   \<and> task_at (resume True 0 (loop_on_result
        \<lparr>success = True, transcript = ''Astra'', containsKeyword = True, hasVoice = True\<rparr>
        0 (mounted 5000 (Some home) Absent))) 0 = Some (Some 5500, Stop_wait AfterKeyword)
   \<and> (\<exists>m\<le>1.
        task_at ((resume True 0 ^^ Suc (Suc m)) (loop_on_result
          \<lparr>success = True, transcript = ''Astra'', containsKeyword = True, hasVoice = True\<rparr>
          0 (mounted 5000 (Some home) Absent))) 0 = None
        \<and> \<not> listeningLoopRef ((resume True 0 ^^ Suc (Suc m)) (loop_on_result
          \<lparr>success = True, transcript = ''Astra'', containsKeyword = True, hasVoice = True\<rparr>
          0 (mounted 5000 (Some home) Absent))))
   \<and> transcript \<lparr>success = True, transcript = [], containsKeyword = True, hasVoice = True\<rparr> = []
   \<and> listeningLoopRef ((mounted 5000 (Some home) Absent)\<lparr>listeningLoopRef := True\<rparr>)
   \<and> \<not> recordingLock ((mounted 5000 (Some home) Absent)\<lparr>listeningLoopRef := True\<rparr>)
   \<and> task_at (loop_on_result
        \<lparr>success = True, transcript = [], containsKeyword = True, hasVoice = True\<rparr>
        0 ((mounted 5000 (Some home) Absent)\<lparr>listeningLoopRef := True\<rparr>)) 0
       = Some (Some 5300, Loop_delay)
   \<and> task_at (resume True 0 (loop_on_result
        \<lparr>success = True, transcript = [], containsKeyword = True, hasVoice = True\<rparr>
        0 ((mounted 5000 (Some home) Absent)\<lparr>listeningLoopRef := True\<rparr>))) 0
       = Some (Some 5050, RC_cleanup)"
proof -
  let ?r = "\<lparr>success = True, transcript = ''Astra'', containsKeyword = True, hasVoice = True\<rparr>"
  let ?e = "\<lparr>success = True, transcript = [], containsKeyword = True, hasVoice = True\<rparr>"
  let ?w = "mounted 5000 (Some home) Absent"
  let ?v = "?w\<lparr>listeningLoopRef := True\<rparr>"
  have h: "voice_currentLocation ?w = Some home" "parsed (demo_guardians ?w) = Some []"
    "parsed (demo_alerts ?w) = Some []" "clock ?w = 5000" "clock ?v = 5000"
    "listeningLoopRef ?v" "\<not> recordingLock ?v"
    by (simp_all add: mounted_def parsed_def)
  have k: "success ?r \<and> hasVoice ?r \<and> transcript ?r \<noteq> [] \<and> containsKeyword ?r"
    "transcript ?e = []" "success ?e"
    by simp_all
  note t = keyword_stops_loop [of ?r ?w home "[]" "[]" 0 True]
  note a = t [THEN conjunct1, THEN mp, OF k(1)]
  note LR = a [THEN conjunct1, THEN mp, OF conjI [OF h(1) conjI [OF h(2) h(3)]]]
  note L = LR [THEN conjunct1] and R = LR [THEN conjunct2]
  from a [THEN conjunct2] have X: "\<exists>m\<le>1.
        task_at ((resume True 0 ^^ Suc (Suc m)) (loop_on_result ?r 0 ?w)) 0 = None
        \<and> \<not> listeningLoopRef ((resume True 0 ^^ Suc (Suc m)) (loop_on_result ?r 0 ?w))"
    by (elim exE conjE) (intro exI conjI, assumption+)
  note u = keyword_stops_loop [of ?e ?v home "[]" "[]" 0 True]
  note b = u [THEN conjunct2, THEN mp, OF k(2)]
  note E = b [THEN conjunct1]
  note C = b [THEN conjunct2, THEN mp, OF conjI [OF h(6) h(7)]]
  have 1: "map triggerType (persisted (loop_on_result ?r 0 ?w)) = [''voice'']"
    by (subst L) (simp add: persisted_def)
  have 2: "task_at (resume True 0 (loop_on_result ?r 0 ?w)) 0
      = Some (Some 5500, Stop_wait AfterKeyword)"
    by (subst R) (simp add: L h)
  have 3: "task_at (loop_on_result ?e 0 ?v) 0 = Some (Some 5300, Loop_delay)"
    by (subst E) (simp add: h)
  have 4: "task_at (resume True 0 (loop_on_result ?e 0 ?v)) 0 = Some (Some 5050, RC_cleanup)"
    using C h by simp
  have k1: "success ?r" "hasVoice ?r" "transcript ?r \<noteq> []" "containsKeyword ?r"
    by simp_all
  note all = k1 h(1-3) 1 2 X k(2) h(6,7) 3 4
  show ?thesis
    by (intro conjI) (rule all)+
qed

text \<open>
  Claim C3 as stated fails: a result with \<open>success\<close>, \<open>hasVoice\<close> and
  \<open>containsKeyword\<close> true and an empty transcript raises no alert; the loop waits
  300 ms and starts the next capture.
\<close>

theorem keyword_without_transcript_keeps_listening:
  "transcribeAudio keyword_without_transcript =
     Inr \<lparr>success = True, transcript = [], containsKeyword = True, hasVoice = True\<rparr>
   \<and> map_option journal
     (exec (first_capture @ [(9000, Reply 0 keyword_without_transcript),
                             (9300, Timer 0 True), (9350, Timer 0 True)])
        (mounted 5000 (Some home) Absent))
     = Some [VoiceActiveToast, CaptureStarted 0, CaptureStopped 0, TranscribeRequested 0,
             CaptureStarted 1]
   \<and> map_option listeningLoopRef
     (exec (first_capture @ [(9000, Reply 0 keyword_without_transcript),
                             (9300, Timer 0 True), (9350, Timer 0 True)])
        (mounted 5000 (Some home) Absent)) = Some True"
  by code_simp

lemma request_fails_result:
  "request_fails env \<Longrightarrow>
   transcribeAudio env =
     Inr \<lparr>success = False, transcript = [], containsKeyword = False, hasVoice = False\<rparr>"
  by (auto simp: request_fails_def transcribeAudio_def transcribeAudio_try_def
      transcribeAudio_catch_result split: sum.splits option.splits)

lemma reply_failed:
  assumes "request_fails env" "task_at w tid = Some (None, Loop_transcribe u)"
  shows "reply env tid w = sleep 300 Loop_delay tid (say TranscriptionFailed w)"
  using assms by (simp add: reply_def loop_on_reply_def request_fails_result loop_on_result_def)

lemma awaiting_transcription_iff:
  "awaiting_transcription tid w \<longleftrightarrow>
     (\<exists>u. task_at w tid = Some (None, Loop_transcribe u))
     \<and> listeningLoopRef w \<and> \<not> recordingLock w \<and> recording w = None"
proof (cases "task_at w tid")
  case None
  then show ?thesis by (simp add: awaiting_transcription_def)
next
  case (Some a)
  obtain wk p where a: "a = (wk, p)" by (cases a)
  show ?thesis
    using Some a by (cases wk; cases p) (simp_all add: awaiting_transcription_def)
qed

lemma awaiting_transcriptionD:
  assumes "awaiting_transcription tid w"
  obtains u where "task_at w tid = Some (None, Loop_transcribe u)" "listeningLoopRef w"
    "\<not> recordingLock w" "recording w = None"
  using assms by (auto simp: awaiting_transcription_iff)

lemma failed_round:
  assumes a: "awaiting_transcription tid w" and f: "request_fails env"
  shows "awaiting_transcription tid (loop_round env tid w)
    \<and> journal (loop_round env tid w) =
        journal w @ [TranscriptionFailed, CaptureStarted (next_recording w),
                     CaptureStopped (next_recording w), TranscribeRequested (next_recording w)]"
proof -
  from a obtain u where t: "task_at w tid = Some (None, Loop_transcribe u)"
    and l: "listeningLoopRef w" "\<not> recordingLock w" "recording w = None"
    by (rule awaiting_transcriptionD)
  let ?r = "next_recording w"
  let ?s1 = "sleep 300 Loop_delay tid (say TranscriptionFailed w)"
  have 1: "reply env tid w = ?s1" by (rule reply_failed [OF f t])
  let ?s2 = "sleep 50 RC_cleanup tid (?s1\<lparr>recordingLock := True, isRecording := False\<rparr>)"
  have 2: "resume True tid ?s1 = ?s2"
    using l by (simp add: resume_def loop_top_def recordChunk_0_def Let_def)
  let ?s3 = "sleep 3000 RC_record tid (say (CaptureStarted ?r)
      (?s2\<lparr>recording := Some ?r, next_recording := Suc ?r, isRecording := True\<rparr>))"
  have 3: "resume True tid ?s2 = ?s3"
    by (simp add: resume_def recordChunk_1_def Let_def)
  let ?s4 = "sleep 100 (RC_release ?r) tid (say (CaptureStopped ?r)
      (?s3\<lparr>recording := None, isRecording := False\<rparr>))"
  have 4: "resume True tid ?s3 = ?s4"
    by (simp add: resume_def recordChunk_2_def)
  let ?s5 = "await_reply (Loop_transcribe ?r) tid (say (TranscribeRequested ?r)
      (?s4\<lparr>recordingLock := False\<rparr>))"
  have 5: "resume True tid ?s4 = ?s5"
    using l by (simp add: resume_def recordChunk_3_def loop_after_record_def)
  have r: "loop_round env tid w = ?s5"
    by (simp only: loop_round_def 1 2 3 4 5)
  show ?thesis
    unfolding r using l by (simp add: awaiting_transcription_iff)
qed

lemma failed_rounds:
  "awaiting_transcription tid w \<Longrightarrow> list_all request_fails envs \<Longrightarrow>
   awaiting_transcription tid (fold (\<lambda>env. loop_round env tid) envs w)
   \<and> length (filter failure_noted (journal (fold (\<lambda>env. loop_round env tid) envs w)))
       = length (filter failure_noted (journal w)) + length envs
   \<and> filter keyword_noted (journal (fold (\<lambda>env. loop_round env tid) envs w))
       = filter keyword_noted (journal w)"
proof (induction envs arbitrary: w)
  case Nil
  then show ?case by simp
next
  case (Cons env envs)
  from Cons.prems have f: "request_fails env" and fs: "list_all request_fails envs"
    by simp_all
  note r = failed_round [OF Cons.prems(1) f]
  from r have a: "awaiting_transcription tid (loop_round env tid w)" by simp
  from r have j: "length (filter failure_noted (journal (loop_round env tid w)))
      = length (filter failure_noted (journal w)) + 1"
    "filter keyword_noted (journal (loop_round env tid w)) = filter keyword_noted (journal w)"
    by simp_all
  show ?case
    using Cons.IH [OF a fs] j by simp
qed

text \<open>
  Claim C4, as the code has it. A failed transcription request makes the loop note
  "Transcription failed" and wait the ordinary 300 ms inter-chunk delay. However many
  requests fail in a row, after each round the loop task is again waiting for a
  transcription with the loop flag set: one failure is noted per round and no keyword alert
  is raised.
\<close>

theorem failed_transcriptions_keep_listening:
  "(request_fails env \<and> task_at w tid = Some (None, Loop_transcribe u) \<longrightarrow>
      reply env tid w = sleep 300 Loop_delay tid (say TranscriptionFailed w))
   \<and> (awaiting_transcription tid w \<and> list_all request_fails envs \<longrightarrow>
        awaiting_transcription tid (fold (\<lambda>env. loop_round env tid) envs w)
        \<and> length (filter failure_noted (journal (fold (\<lambda>env. loop_round env tid) envs w)))
            = length (filter failure_noted (journal w)) + length envs
        \<and> filter keyword_noted (journal (fold (\<lambda>env. loop_round env tid) envs w))
            = filter keyword_noted (journal w))"
  using reply_failed [of env w tid u] failed_rounds [of tid w envs] by blast

theorem failed_transcriptions_keep_listening_witness:
  "request_fails timed_out
   \<and> list_all request_fails [timed_out, timed_out, timed_out]
   \<and> (case exec first_capture (mounted 5000 (Some home) Absent) of
        None \<Rightarrow> False
      | Some w \<Rightarrow>
          task_at w 0 = Some (None, Loop_transcribe 0)
          \<and> awaiting_transcription 0 w
          \<and> reply timed_out 0 w = sleep 300 Loop_delay 0 (say TranscriptionFailed w)
          \<and> awaiting_transcription 0
               (fold (\<lambda>env. loop_round env 0) [timed_out, timed_out, timed_out] w)
          \<and> filter keyword_noted
               (journal (fold (\<lambda>env. loop_round env 0) [timed_out, timed_out, timed_out] w)) = [])"
proof -
  have f: "request_fails timed_out"
    by (simp add: request_fails_def timed_out_def)
  have "case exec first_capture (mounted 5000 (Some home) Absent) of
        None \<Rightarrow> False
      | Some w \<Rightarrow> task_at w 0 = Some (None, Loop_transcribe 0) \<and> awaiting_transcription 0 w
          \<and> filter keyword_noted (journal w) = []"
    by code_simp
  then obtain w where w: "exec first_capture (mounted 5000 (Some home) Absent) = Some w"
    "task_at w 0 = Some (None, Loop_transcribe 0)" "awaiting_transcription 0 w"
    "filter keyword_noted (journal w) = []"
    by (auto split: option.splits)
  show ?thesis
    using f w failed_transcriptions_keep_listening
      [of timed_out w 0 0 "[timed_out, timed_out, timed_out]"]
    by simp
qed

text \<open>
  Claim C4 as stated fails on the length of the wait: after a timeout answered at 9000
  the loop's timer is set for 9300, not for 11000. The 2000 ms wait belongs to the
  loop's \<open>catch\<close> block, which a failed request never reaches.
\<close>

theorem failed_transcription_waits_300ms:
  "map_option tasks
     (exec (first_capture @ [(9000, Reply 0 timed_out)]) (mounted 5000 (Some home) Absent))
     = Some [(0, Some 9300, Loop_delay)]
   \<and> map_option journal
     (exec (first_capture @ [(9000, Reply 0 timed_out)]) (mounted 5000 (Some home) Absent))
     = Some [VoiceActiveToast, CaptureStarted 0, CaptureStopped 0, TranscribeRequested 0,
             TranscriptionFailed]"
  by code_simp

end
